theory Spec2Isabelle
  imports Main "HOL-Library.Sublist"
begin

section \<open>The test-run orchestration of \<^verbatim>\<open>extension.ts\<close>\<close>

text \<open>
  The extension is embedded function by function. A JavaScript string is the list of
  its code units, written as a \<^typ>\<open>string\<close>; every literal of the source is ASCII and
  no definition below looks inside a character other than by comparing it with such a
  literal, so \<open>length\<close> is the source's \<^verbatim>\<open>.length\<close>.

  An \<^verbatim>\<open>async\<close> function becomes a function that returns how its promise ends
  (\<open>Pending\<close> when it never settles) together with the trace of the calls it made to its
  collaborators, in the order it made them. Everything the outside world answers (the
  free port, the glob search, the directory creation, the events of the child process)
  is a field of the environment record \<open>env\<close>.
\<close>

subsection \<open>Strings: the library functions the source calls\<close>

text \<open>\<^verbatim>\<open>Array.prototype.join\<close> on an array of strings.\<close>

fun join_str :: "string \<Rightarrow> string list \<Rightarrow> string" where
  "join_str sep [] = []"
| "join_str sep [x] = x"
| "join_str sep (x # y # ys) = x @ sep @ join_str sep (y # ys)"

text \<open>\<^verbatim>\<open>String.prototype.endsWith\<close>.\<close>

definition endsWith :: "string \<Rightarrow> string \<Rightarrow> bool" where
  "endsWith s suf = (length suf \<le> length s \<and> drop (length s - length suf) s = suf)"

text \<open>\<^verbatim>\<open>String.prototype.indexOf\<close>: the first position of the pattern, or -1.\<close>

fun indexOf_from :: "int \<Rightarrow> string \<Rightarrow> string \<Rightarrow> int" where
  "indexOf_from i [] pat = (if pat = [] then i else - 1)"
| "indexOf_from i (c # cs) pat =
     (if prefix pat (c # cs) then i else indexOf_from (i + 1) cs pat)"

definition indexOf :: "string \<Rightarrow> string \<Rightarrow> int" where
  "indexOf s pat = indexOf_from 0 s pat"

text \<open>The decimal digits of a number, as \<^verbatim>\<open>'' + n\<close> gives them.\<close>

fun digits :: "nat \<Rightarrow> string" where
  "digits n =
     (if n < 10 then [char_of (48 + n)] else digits (n div 10) @ [char_of (48 + n mod 10)])"

subsection \<open>Paths: \<^verbatim>\<open>path.posix.join\<close> of Node\<close>

text \<open>
  \<^verbatim>\<open>path.posix.join\<close> glues its non-empty arguments with \<^verbatim>\<open>/\<close> and normalises the result:
  empty segments and \<^verbatim>\<open>.\<close> are dropped, \<^verbatim>\<open>..\<close> removes the segment before it (and
  is kept, on a relative path, when there is none to remove), a trailing \<^verbatim>\<open>/\<close> is
  kept. This is the implementation of \<^verbatim>\<open>path.posix\<close>, which is \<^verbatim>\<open>path\<close> on every platform
  but \<^verbatim>\<open>win32\<close>.
\<close>

fun segments :: "string \<Rightarrow> string \<Rightarrow> string list" where
  "segments cur [] = [cur]"
| "segments cur (c # cs) =
     (if c = CHR ''/'' then cur # segments [] cs else segments (cur @ [c]) cs)"

fun normalizeSegments :: "bool \<Rightarrow> string list \<Rightarrow> string list \<Rightarrow> string list" where
  "normalizeSegments allowAboveRoot res [] = res"
| "normalizeSegments allowAboveRoot res (s # ss) =
     (if s = [] \<or> s = ''.'' then normalizeSegments allowAboveRoot res ss
      else if s = ''..'' then
        (if res \<noteq> [] \<and> last res \<noteq> ''..''
         then normalizeSegments allowAboveRoot (butlast res) ss
         else if allowAboveRoot then normalizeSegments allowAboveRoot (res @ [''..'']) ss
         else normalizeSegments allowAboveRoot res ss)
      else normalizeSegments allowAboveRoot (res @ [s]) ss)"

definition normalizeString :: "string \<Rightarrow> bool \<Rightarrow> string" where
  "normalizeString p allowAboveRoot =
     join_str ''/'' (normalizeSegments allowAboveRoot [] (segments [] p))"

definition path_normalize :: "string \<Rightarrow> string" where
  "path_normalize p =
     (if p = [] then ''.''
      else let isAbsolute = (hd p = CHR ''/'');
               trailingSeparator = (last p = CHR ''/'');
               q = normalizeString p (\<not> isAbsolute)
           in if q = [] then
                (if isAbsolute then ''/'' else if trailingSeparator then ''./'' else ''.'')
              else (if isAbsolute then ''/'' else []) @ q
                   @ (if trailingSeparator then ''/'' else []))"

definition posix_join :: "string \<Rightarrow> string \<Rightarrow> string" where
  "posix_join a b =
     (let joined = join_str ''/'' (filter (\<lambda>s. s \<noteq> []) [a, b])
      in if joined = [] then ''.'' else path_normalize joined)"

subsection \<open>The manifest of the class-path archive\<close>

text \<open>
  \<^verbatim>\<open>constructManifestFile\<close> (lines 294 to 303). \<^verbatim>\<open>fileUrl\<close> is the function of the
  package \<^verbatim>\<open>file-url\<close> and \<^verbatim>\<open>eol\<close> is \<^verbatim>\<open>os.EOL\<close>; both are parameters.
\<close>

definition constructManifestFile :: "(string \<Rightarrow> string) \<Rightarrow> string \<Rightarrow> string list \<Rightarrow> string" where
  "constructManifestFile fileUrl eol classpaths =
     (let content = [];
          extended = ''Class-Path:'' #
            map (\<lambda>c. let path = fileUrl c
                      in if endsWith path ''.jar'' then path else path @ ''/'') classpaths;
          content = content @ join_str ('' '' @ eol @ '' '') extended;
          content = content @ eol
      in content)"

subsection \<open>The platform\<close>

text \<open>
  Line 33 and lines 242 to 245. \<^verbatim>\<open>process.platform\<close> is a parameter: Node documents
  \<^verbatim>\<open>aix\<close>, \<^verbatim>\<open>darwin\<close>, \<^verbatim>\<open>freebsd\<close>, \<^verbatim>\<open>linux\<close>, \<^verbatim>\<open>openbsd\<close>, \<^verbatim>\<open>sunos\<close> and \<^verbatim>\<open>win32\<close>.
\<close>

definition isWindows :: "string \<Rightarrow> bool" where
  "isWindows platform = (indexOf platform ''win'' = 0)"

definition classpathSeparator :: "string \<Rightarrow> string" where
  "classpathSeparator platform =
     (let separator = '';''
      in if platform = ''darwin'' \<or> platform = ''linux'' then '':'' else separator)"

subsection \<open>Values, errors, promises and the trace of calls\<close>

text \<open>
  What the source throws or rejects with: an \<^verbatim>\<open>Error\<close> object (name, message, the
  optional \<^verbatim>\<open>code\<close>, stack) or, at line 186, a plain string.
\<close>

datatype jserror =
    ErrorObj string string "string option" string
  | StringVal string

text \<open>\<^verbatim>\<open>err.code\<close>: \<^verbatim>\<open>undefined\<close> on a value that has none.\<close>

fun code_of :: "jserror \<Rightarrow> string option" where
  "code_of (ErrorObj n m c s) = c"
| "code_of (StringVal s) = None"

text \<open>\<^verbatim>\<open>ex.toString()\<close> and the conversion a template literal applies.\<close>

fun toString :: "jserror \<Rightarrow> string" where
  "toString (ErrorObj n m c s) = (if n = [] then m else if m = [] then n else n @ '': '' @ m)"
| "toString (StringVal s) = s"

datatype jsvalue = Undefined | Null

datatype 'a promise = Pending | Resolved 'a | Rejected jserror

text \<open>A promise settles once: \<^verbatim>\<open>resolve\<close> and \<^verbatim>\<open>reject\<close> on a settled promise do nothing.\<close>

definition resolve :: "'a \<Rightarrow> 'a promise \<Rightarrow> 'a promise" where
  "resolve v p = (case p of Pending \<Rightarrow> Resolved v | _ \<Rightarrow> p)"

definition reject :: "jserror \<Rightarrow> 'a promise \<Rightarrow> 'a promise" where
  "reject e p = (case p of Pending \<Rightarrow> Rejected e | _ \<Rightarrow> p)"

text \<open>The fields of a \<^verbatim>\<open>TestSuite\<close> that the file reads.\<close>

record TestSuite =
  test :: string
  uri :: string

text \<open>
  The calls the source makes to its collaborators. \<open>SetRunning\<close> is the assignment to
  the module variable \<^verbatim>\<open>running\<close>; \<open>StartDebuggingAfter\<close> is the \<^verbatim>\<open>setTimeout\<close> of
  line 193 with the call it schedules.
\<close>

datatype effect =
    OutputClear
  | OutputShow bool
  | ShowInformationMessage string
  | ShowErrorMessage string
  | LogInfo string
  | LogError string
  | LogUsage string string "string option"
  | GetClassPath string
  | Mkdirp string
  | CreateWriteStream string
  | ArchivePipe string
  | ArchiveAppend string string
  | ArchiveFinalize
  | Rimraf string
  | Exec string
  | NewTestResultAnalyzer "TestSuite list"
  | SendData string
  | FeedBack
  | OnDidChangeFire
  | StartDebuggingAfter nat string "nat option"
  | SetRunning bool

text \<open>The argument of the commands, \<^verbatim>\<open>TestSuite[] | TestSuite\<close>.\<close>

datatype tests_arg = Single TestSuite | Many "TestSuite list"

text \<open>Events of the write stream and the archiver (lines 278 to 285).\<close>

datatype stream_event = OutputClose | ArchiveError jserror

text \<open>Events of the child process (lines 162 to 190); \<^verbatim>\<open>exit\<close> carries code and signal.\<close>

datatype proc_event =
    PError jserror
  | StderrData string
  | StdoutData string
  | PClose
  | PExit "int option" "string option"

text \<open>
  The environment of one run: the constant \<^verbatim>\<open>Constants.MAX_CLASS_PATH_LENGTH\<close> (declared
  in \<^verbatim>\<open>commands.ts\<close>), the collaborator \<^verbatim>\<open>classPathManager.getClassPath\<close> composed with
  \<^verbatim>\<open>Uri.parse\<close>, and the answers of Node and of the packages the file imports:
  \<^verbatim>\<open>process.platform\<close>, \<^verbatim>\<open>os.EOL\<close>, \<^verbatim>\<open>fileUrl\<close>, \<^verbatim>\<open>path.resolve\<close>, \<^verbatim>\<open>path.dirname\<close>,
  \<^verbatim>\<open>__dirname\<close>, the text of \<^verbatim>\<open>new Date().getTime()\<close>, what \<^verbatim>\<open>getPort\<close> settles with,
  \<^verbatim>\<open>glob.sync\<close> by pattern and directory, the error \<^verbatim>\<open>mkdirp\<close> and \<^verbatim>\<open>rimraf\<close> hand to their
  callbacks, and the events delivered by the write stream and archiver and by the child
  process, in their order of arrival.
\<close>

record env =
  MAX_CLASS_PATH_LENGTH :: nat
  platform :: string
  eol :: string
  fileUrl :: "string \<Rightarrow> string"
  path_resolve :: "string list \<Rightarrow> string"
  path_dirname :: "string \<Rightarrow> string"
  win32_join :: "string \<Rightarrow> string \<Rightarrow> string"
  dirname :: string
  now :: string
  getClassPath :: "string \<Rightarrow> string list"
  getPort :: "jserror + nat"
  glob_sync :: "string \<Rightarrow> string \<Rightarrow> string list"
  mkdirp :: "string \<Rightarrow> jserror option"
  stream_events :: "stream_event list"
  rimraf :: "string \<Rightarrow> jserror option"
  proc_events :: "proc_event list"

text \<open>
  \<^verbatim>\<open>path.join\<close>: Node exports \<^verbatim>\<open>path.win32\<close> as \<^verbatim>\<open>path\<close> when \<^verbatim>\<open>process.platform\<close> is
  \<^verbatim>\<open>win32\<close> and \<^verbatim>\<open>path.posix\<close> otherwise. The Windows function is taken from the
  environment, like \<^verbatim>\<open>path.resolve\<close> and \<^verbatim>\<open>path.dirname\<close>.
\<close>

definition path_join :: "env \<Rightarrow> string \<Rightarrow> string \<Rightarrow> string" where
  "path_join e a b = (if platform e = ''win32'' then win32_join e a b else posix_join a b)"

definition dquote :: string where
  "dquote = [CHR 0x22]"

definition squote :: string where
  "squote = [CHR 0x27]"

subsection \<open>\<^verbatim>\<open>processLongClassPath\<close> (lines 265 to 292)\<close>

text \<open>
  The handlers of lines 278 to 285, run on each event in turn. The events that arrive
  after the promise has settled still run their handler, which cannot change it; what
  such a handler logs is listed here, with the function that registered it.
\<close>

fun streamHandlers :: "string \<Rightarrow> stream_event list \<Rightarrow> string promise \<times> effect list
    \<Rightarrow> string promise \<times> effect list" where
  "streamHandlers tempFile [] st = st"
| "streamHandlers tempFile (OutputClose # evs) (p, tr) =
     streamHandlers tempFile evs (resolve tempFile p, tr)"
| "streamHandlers tempFile (ArchiveError err # evs) (p, tr) =
     streamHandlers tempFile evs
       (reject err p,
        tr @ [LogError (''Failed to process too long class path issue. Error: '' @ toString err)])"

definition processLongClassPath :: "env \<Rightarrow> string list \<Rightarrow> string \<Rightarrow> string
    \<Rightarrow> string promise \<times> effect list" where
  "processLongClassPath e classpaths separator storagePath =
     (let concated = join_str separator classpaths
      in if length concated \<le> MAX_CLASS_PATH_LENGTH e then (Resolved concated, [])
         else
           let tempFile = path_join e storagePath ''path.jar'';
               dir = path_dirname e tempFile;
               (p, tr) =
                 (case mkdirp e dir of
                    None \<Rightarrow> (Pending, [Mkdirp dir])
                  | Some err \<Rightarrow>
                      if code_of err \<noteq> Some ''EEXIST''
                      then (reject err Pending,
                            [Mkdirp dir,
                             LogError (''Failed to create sub directory for this run. Storage path: ''
                                       @ toString err)])
                      else (Pending, [Mkdirp dir]))
           in streamHandlers tempFile (stream_events e)
                (p, tr @ [CreateWriteStream tempFile,
                          ArchivePipe tempFile,
                          ArchiveAppend (constructManifestFile (fileUrl e) (eol e) classpaths)
                                        ''META-INF/MANIFEST.MF'',
                          ArchiveFinalize]))"

subsection \<open>\<^verbatim>\<open>parseParams\<close> (lines 227 to 263)\<close>

definition parseParams :: "env \<Rightarrow> string \<Rightarrow> string list \<Rightarrow> string list \<Rightarrow> string
    \<Rightarrow> nat option \<Rightarrow> bool \<Rightarrow> string list option promise \<times> effect list" where
  "parseParams e javaHome classpaths suites storagePath port debug =
     (let params = [dquote @ path_resolve e [javaHome @ ''/bin/java''] @ dquote];
          server_home = path_resolve e [dirname e, ''../../server''];
          launchersFound = glob_sync e ''**/com.microsoft.java.test.runner-*.jar'' server_home
      in if launchersFound \<noteq> [] then
           let params = params @ [''-cp''];
               classpaths = path_resolve e [server_home, hd launchersFound] # classpaths;
               separator = classpathSeparator (platform e)
           in case processLongClassPath e classpaths separator storagePath of
                (Pending, tr) \<Rightarrow> (Pending, tr)
              | (Rejected ex, tr) \<Rightarrow> (Rejected ex, tr)
              | (Resolved classpathStr, tr) \<Rightarrow>
                  let params = params @ [dquote @ classpathStr @ dquote];
                      params =
                        (if debug then
                           params @
                           [''-Xdebug'',
                            ''-Xrunjdwp:transport=dt_socket,server=y,suspend=y,address=''
                              @ (case port of None \<Rightarrow> ''undefined'' | Some n \<Rightarrow> digits n)]
                         else params);
                      params = params @ [''com.microsoft.java.test.runner.JUnitLauncher''];
                      params = params @ suites
                  in (Resolved (Some params), tr)
         else (Resolved None, [LogError ''Failed to locate test server runtime!'']))"

subsection \<open>\<^verbatim>\<open>runTest\<close> (lines 123 to 204)\<close>

text \<open>
  The callback of \<^verbatim>\<open>rimraf\<close> (lines 147 to 151 and 178 to 182), listed with the call.
\<close>

definition rimrafStorage :: "env \<Rightarrow> string \<Rightarrow> effect list" where
  "rimrafStorage e storageForThisRun =
     Rimraf storageForThisRun #
     (case rimraf e storageForThisRun of
        None \<Rightarrow> []
      | Some err \<Rightarrow>
          [LogError (''Failed to delete storage for this run. Storage path: '' @ toString err)])"

text \<open>
  The state of the promise executor of lines 159 to 203: the local \<^verbatim>\<open>error\<close>, the
  promise, and the calls made so far.
\<close>

record exec_state =
  error :: string
  settled :: "jsvalue promise"
  calls :: "effect list"

text \<open>The five handlers of lines 162 to 190.\<close>

fun onEvent :: "env \<Rightarrow> string \<Rightarrow> proc_event \<Rightarrow> exec_state \<Rightarrow> exec_state" where
  "onEvent e storageForThisRun (PError (ErrorObj n m c s)) st =
     st\<lparr>calls := calls st @
            [LogError (''Error occured while running/debugging tests. Name: '' @ n
                       @ ''. Message: '' @ m @ ''. Stack: '' @ s @ ''.'')],
        settled := reject (ErrorObj n m c s) (settled st)\<rparr>"
| "onEvent e storageForThisRun (PError (StringVal v)) st =
     st\<lparr>calls := calls st @
            [LogError (''Error occured while running/debugging tests. Name: undefined''
                       @ ''. Message: undefined. Stack: undefined.'')],
        settled := reject (StringVal v) (settled st)\<rparr>"
| "onEvent e storageForThisRun (StderrData d) st =
     st\<lparr>error := error st @ d,
        calls := calls st @ [LogError (''Error occured: '' @ d), SendData d]\<rparr>"
| "onEvent e storageForThisRun (StdoutData d) st =
     st\<lparr>calls := calls st @ [LogInfo d, SendData d]\<rparr>"
| "onEvent e storageForThisRun PClose st =
     st\<lparr>calls := calls st @ [FeedBack, OnDidChangeFire] @ rimrafStorage e storageForThisRun\<rparr>"
| "onEvent e storageForThisRun (PExit code signal) st =
     st\<lparr>settled := (if error st \<noteq> [] then reject (StringVal (error st)) (settled st)
                     else resolve Undefined (settled st))\<rparr>"

text \<open>
  \<^verbatim>\<open>await\<close> of the promise: the events are delivered in turn until a handler settles it,
  and \<^verbatim>\<open>runTest\<close> resumes. The calls of \<^verbatim>\<open>runTest\<close> are those made up to that moment.
\<close>

fun deliver :: "env \<Rightarrow> string \<Rightarrow> exec_state \<Rightarrow> proc_event list \<Rightarrow> exec_state" where
  "deliver e storageForThisRun st [] = st"
| "deliver e storageForThisRun st (ev # evs) =
     (let st' = onEvent e storageForThisRun ev st
      in if settled st' \<noteq> Pending then st' else deliver e storageForThisRun st' evs)"

text \<open>
  The handlers keep running after that: every event reaches its handler, whether the
  promise is settled or not (the \<^verbatim>\<open>close\<close> that follows the \<^verbatim>\<open>exit\<close>, data that arrive
  late). \<open>handleAll\<close> runs them all; it ends with the promise \<open>deliver\<close> ends with, and
  its calls are those of \<open>deliver\<close> followed by the calls made after \<^verbatim>\<open>runTest\<close> has
  resumed.
\<close>

definition handleAll :: "env \<Rightarrow> string \<Rightarrow> exec_state \<Rightarrow> proc_event list \<Rightarrow> exec_state" where
  "handleAll e storageForThisRun st evs = foldl (\<lambda>st ev. onEvent e storageForThisRun ev st) st evs"

definition awaitProcess :: "env \<Rightarrow> string list \<Rightarrow> string \<Rightarrow> string \<Rightarrow> nat option \<Rightarrow> bool
    \<Rightarrow> proc_event list \<Rightarrow> jsvalue promise \<times> effect list" where
  "awaitProcess e params storageForThisRun uri' port isDebugMode evs =
     (let st = \<lparr>error = [], settled = Pending, calls = [Exec (join_str '' '' params)]\<rparr>;
          st = (if isDebugMode
                then st\<lparr>calls := calls st @
                        [StartDebuggingAfter 500 uri' port]\<rparr>
                else st);
          st = deliver e storageForThisRun st evs
      in (settled st, calls st))"

text \<open>Line 126: \<^verbatim>\<open>Array.isArray(tests) ? tests : [tests]\<close>.\<close>

fun testListOf :: "tests_arg \<Rightarrow> TestSuite list" where
  "testListOf (Many ts) = ts"
| "testListOf (Single t) = [t]"

definition runTest :: "env \<Rightarrow> string \<Rightarrow> tests_arg \<Rightarrow> string \<Rightarrow> bool
    \<Rightarrow> jsvalue promise \<times> effect list" where
  "runTest e javaHome tests storagePath isDebugMode =
     (let testList = testListOf tests;
          suites = map test testList
      in (case testList of
           [] \<Rightarrow>
             (Rejected (ErrorObj ''TypeError''
                          (''Cannot read property '' @ squote @ ''uri'' @ squote @ '' of undefined'')
                          None []),
              [OutputClear, OutputShow True])
         | first # others \<Rightarrow>
             (let uri' = uri first;
                  classpaths = getClassPath e uri';
                  tr = [OutputClear, OutputShow True, GetClassPath uri']
              in (case (if isDebugMode then map_sum id Some (getPort e) else Inr None) of
                   Inl ex \<Rightarrow>
                     (let message = ''Failed to get free port for debugging. Details: ''
                                    @ toString ex @ ''.''
                      in (Rejected ex, tr @ [ShowErrorMessage message, LogError message]))
                 | Inr port \<Rightarrow>
                     (let storageForThisRun = path_join e storagePath (now e)
                      in (case parseParams e javaHome classpaths suites storageForThisRun port
                                 isDebugMode of
                            (Rejected ex, ptr) \<Rightarrow>
                              (Rejected ex,
                               tr @ ptr
                               @ [LogError (''Exception occers while parsing params. Details: ''
                                            @ toString ex)]
                               @ rimrafStorage e storageForThisRun)
                          | (Pending, ptr) \<Rightarrow> (Pending, tr @ ptr)
                          | (Resolved None, ptr) \<Rightarrow> (Resolved Null, tr @ ptr)
                          | (Resolved (Some params), ptr) \<Rightarrow>
                              (case awaitProcess e params storageForThisRun uri' port isDebugMode
                                      (proc_events e) of
                                 (Resolved v, etr) \<Rightarrow>
                                   (Resolved Undefined,
                                    tr @ ptr @ NewTestResultAnalyzer testList # etr)
                               | (Rejected ex, etr) \<Rightarrow>
                                   (Rejected ex, tr @ ptr @ NewTestResultAnalyzer testList # etr)
                               | (Pending, etr) \<Rightarrow>
                                   (Pending, tr @ ptr @ NewTestResultAnalyzer testList # etr))))))))"

subsection \<open>\<^verbatim>\<open>runSingleton\<close> (lines 206 to 219)\<close>

text \<open>
  The module variable \<^verbatim>\<open>running\<close> is passed in and returned. When \<^verbatim>\<open>runTest\<close> never
  settles, the \<^verbatim>\<open>finally\<close> block is never reached.
\<close>

definition runSingleton :: "env \<Rightarrow> bool \<Rightarrow> string \<Rightarrow> tests_arg \<Rightarrow> string \<Rightarrow> bool
    \<Rightarrow> (jsvalue promise \<times> effect list) \<times> bool" where
  "runSingleton e running javaHome tests storagePath debug =
     (if running then
        ((Resolved Undefined,
          [ShowInformationMessage
             ''A test session is currently running. Please wait until it finishes.'',
           LogInfo ''Skip this run cause we only support running one session at the same time'']),
         running)
      else
        case runTest e javaHome tests storagePath debug of
          (Pending, tr) \<Rightarrow> ((Pending, SetRunning True # tr), True)
        | (Resolved v, tr) \<Rightarrow>
            ((Resolved Undefined, SetRunning True # tr @ [SetRunning False]), False)
        | (Rejected ex, tr) \<Rightarrow>
            ((Rejected ex, SetRunning True # tr @ [SetRunning False]), False))"

subsection \<open>\<^verbatim>\<open>withScopeAsync\<close> (lines 305 to 326) and the registered commands\<close>

text \<open>
  The wrapper around every command, applied to what its action does. After the \<^verbatim>\<open>catch\<close>
  block the function runs off its end and so returns \<^verbatim>\<open>undefined\<close>. \<open>LogUsage\<close> carries the
  type of the event, the status and the text of the exception; the identifier and the
  duration, read off the clock, are left out.
\<close>

definition withScopeAsync :: "jsvalue promise \<times> effect list \<Rightarrow> string
    \<Rightarrow> jsvalue promise \<times> effect list" where
  "withScopeAsync action eventType =
     (case action of
        (Resolved res, tr) \<Rightarrow> (Resolved res, tr @ [LogUsage eventType ''success'' None])
      | (Rejected ex, tr) \<Rightarrow>
          (Resolved Undefined, tr @ [LogUsage eventType ''fail'' (Some (toString ex))])
      | (Pending, tr) \<Rightarrow> (Pending, tr))"

text \<open>
  The two commands registered at lines 58 to 61: what the caller of the command gets,
  the calls made, and the new value of \<^verbatim>\<open>running\<close>.
\<close>

definition runTestCommand :: "env \<Rightarrow> bool \<Rightarrow> string \<Rightarrow> tests_arg \<Rightarrow> string
    \<Rightarrow> (jsvalue promise \<times> effect list) \<times> bool" where
  "runTestCommand e running javaHome suites storagePath =
     (case runSingleton e running javaHome suites storagePath False of
        (action, running') \<Rightarrow> (withScopeAsync action ''Run Test'', running'))"

definition debugTestCommand :: "env \<Rightarrow> bool \<Rightarrow> string \<Rightarrow> tests_arg \<Rightarrow> string
    \<Rightarrow> (jsvalue promise \<times> effect list) \<times> bool" where
  "debugTestCommand e running javaHome suites storagePath =
     (case runSingleton e running javaHome suites storagePath True of
        (action, running') \<Rightarrow> (withScopeAsync action ''Debug Test'', running'))"

subsection \<open>Command invocations that overlap\<close>

text \<open>
  A command that is invoked while an earlier one awaits \<^verbatim>\<open>runTest\<close> runs between two
  steps of the earlier one. The world holds the module variable \<^verbatim>\<open>running\<close>, the
  invocations that have passed the test of line 208 and not yet reached line 217, each
  with the calls \<^verbatim>\<open>runTest\<close> has still to make and the way its promise ends, and the
  calls made so far by all of them.
\<close>

record invocation =
  script :: "effect list"
  outcome :: "jsvalue promise"
  eventType :: string

record world =
  flag :: bool
  inflight :: "invocation list"
  made :: "effect list"

record request =
  req_debug :: bool
  req_env :: env
  req_javaHome :: string
  req_tests :: tests_arg
  req_storagePath :: string

definition command :: "request \<Rightarrow> bool \<Rightarrow> (jsvalue promise \<times> effect list) \<times> bool" where
  "command r running =
     (if req_debug r
      then debugTestCommand (req_env r) running (req_javaHome r) (req_tests r) (req_storagePath r)
      else runTestCommand (req_env r) running (req_javaHome r) (req_tests r) (req_storagePath r))"

datatype world_event = Invoke request | Advance nat

text \<open>
  \<open>Invoke\<close>: the command runs up to its first \<^verbatim>\<open>await\<close>. When \<^verbatim>\<open>running\<close> is set it
  runs to its end at once, there being no \<^verbatim>\<open>await\<close> on that path; otherwise line 213
  is executed and \<^verbatim>\<open>runTest\<close> is entered.
  \<open>Advance i\<close>: invocation \<open>i\<close> makes the next call of \<^verbatim>\<open>runTest\<close>; when none is
  left and the promise of \<^verbatim>\<open>runTest\<close> has settled, the \<^verbatim>\<open>finally\<close> of line 216 and the
  rest of \<^verbatim>\<open>withScopeAsync\<close> run.
\<close>

definition invoke :: "world \<Rightarrow> request \<Rightarrow> world" where
  "invoke w r =
     (if flag w then
        (case command r (flag w) of
           ((p, tr), running') \<Rightarrow> w\<lparr>flag := running', made := made w @ tr\<rparr>)
      else
        (case runTest (req_env r) (req_javaHome r) (req_tests r) (req_storagePath r)
                (req_debug r) of
           (p, tr) \<Rightarrow>
             w\<lparr>flag := True,
               inflight := inflight w @
                 [\<lparr>script = tr, outcome = p,
                   eventType = (if req_debug r then ''Debug Test'' else ''Run Test'')\<rparr>],
               made := made w @ [SetRunning True]\<rparr>))"

definition advance :: "world \<Rightarrow> nat \<Rightarrow> world" where
  "advance w i =
     (if i < length (inflight w) then
        (let cur = inflight w ! i
         in case script cur of
              c # cs \<Rightarrow>
                w\<lparr>inflight := (inflight w)[i := cur\<lparr>script := cs\<rparr>], made := made w @ [c]\<rparr>
            | [] \<Rightarrow>
                (case outcome cur of
                   Pending \<Rightarrow> w
                 | Resolved v \<Rightarrow>
                     w\<lparr>flag := False,
                       inflight := take i (inflight w) @ drop (Suc i) (inflight w),
                       made := made w @ [SetRunning False,
                                         LogUsage (eventType cur) ''success'' None]\<rparr>
                 | Rejected ex \<Rightarrow>
                     w\<lparr>flag := False,
                       inflight := take i (inflight w) @ drop (Suc i) (inflight w),
                       made := made w @ [SetRunning False,
                                         LogUsage (eventType cur) ''fail'' (Some (toString ex))]\<rparr>))
      else w)"

fun step :: "world \<Rightarrow> world_event \<Rightarrow> world" where
  "step w (Invoke r) = invoke w r"
| "step w (Advance i) = advance w i"

definition idle :: world where
  "idle = \<lparr>flag = False, inflight = [], made = []\<rparr>"

definition run_world :: "world_event list \<Rightarrow> world" where
  "run_world evs = foldl step idle evs"

subsection \<open>Notions used to state the properties\<close>

text \<open>The text of the standard-error chunks among some events, in their order.\<close>

fun stderrText :: "proc_event list \<Rightarrow> string" where
  "stderrText [] = []"
| "stderrText (StderrData d # evs) = d @ stderrText evs"
| "stderrText (ev # evs) = stderrText evs"

text \<open>The events whose handler calls \<^verbatim>\<open>resolve\<close> or \<^verbatim>\<open>reject\<close>.\<close>

fun settles :: "proc_event \<Rightarrow> bool" where
  "settles (PError err) = True"
| "settles (PExit code signal) = True"
| "settles ev = False"

text \<open>The documents whose class path a trace asks for.\<close>

fun classPathQueries :: "effect list \<Rightarrow> string list" where
  "classPathQueries [] = []"
| "classPathQueries (GetClassPath u # tr) = u # classPathQueries tr"
| "classPathQueries (c # tr) = classPathQueries tr"

text \<open>
  The calls that \<^verbatim>\<open>processLongClassPath\<close> and \<^verbatim>\<open>parseParams\<close> can make, and the calls
  that \<^verbatim>\<open>runTest\<close> can make besides them after it has asked for the class path.
\<close>

fun archiveCall :: "effect \<Rightarrow> bool" where
  "archiveCall (LogError m) = True"
| "archiveCall (Mkdirp d) = True"
| "archiveCall (CreateWriteStream f) = True"
| "archiveCall (ArchivePipe f) = True"
| "archiveCall (ArchiveAppend c n) = True"
| "archiveCall ArchiveFinalize = True"
| "archiveCall c = False"

fun processCall :: "effect \<Rightarrow> bool" where
  "processCall (LogError m) = True"
| "processCall (LogInfo m) = True"
| "processCall (SendData d) = True"
| "processCall FeedBack = True"
| "processCall OnDidChangeFire = True"
| "processCall (Rimraf d) = True"
| "processCall (Exec c) = True"
| "processCall (StartDebuggingAfter n u p) = True"
| "processCall (ShowErrorMessage m) = True"
| "processCall (NewTestResultAnalyzer ts) = True"
| "processCall c = False"

text \<open>A trace without the argument of the constructor of line 158.\<close>

fun forgetSuites :: "effect \<Rightarrow> effect" where
  "forgetSuites (NewTestResultAnalyzer ts) = NewTestResultAnalyzer []"
| "forgetSuites c = c"

text \<open>
  At most one invocation is past line 208, and \<^verbatim>\<open>running\<close> is set exactly when there is
  one.
\<close>

definition guarded :: "world \<Rightarrow> bool" where
  "guarded w = (length (inflight w) \<le> 1 \<and> (flag w \<longleftrightarrow> inflight w \<noteq> []))"

subsection \<open>An environment to run the definitions on\<close>

text \<open>
  A Linux machine with a maximum of ten characters for the class path, one launcher
  archive, a free port, a directory creation that succeeds and a child process that
  prints one line and exits.
\<close>

definition env_linux :: env where
  "env_linux =
     \<lparr>MAX_CLASS_PATH_LENGTH = 10, platform = ''linux'', eol = [CHR 0x0A],
      fileUrl = (\<lambda>p. ''file://'' @ p),
      path_resolve = (\<lambda>ps. join_str ''/'' ps),
      path_dirname = (\<lambda>p. ''/store/1''),
      win32_join = (\<lambda>a b. a @ [CHR 0x5C] @ b),
      dirname = ''/ext/out/src'', now = ''1'',
      getClassPath = (\<lambda>u. if u = ''file:///a/T.java'' then [''/a/bin'', ''/a/lib/x.jar''] else []),
      getPort = Inr 5005,
      glob_sync = (\<lambda>p c. [''runner-0.1.jar'']),
      mkdirp = (\<lambda>d. None), stream_events = [OutputClose], rimraf = (\<lambda>d. None),
      proc_events = [StdoutData ''ok'', PExit (Some 0) None, PClose]\<rparr>"

definition eacces :: jserror where
  "eacces = ErrorObj ''Error'' ''EACCES: permission denied'' (Some ''EACCES'') []"


definition suiteA :: TestSuite where
  "suiteA = \<lparr>test = ''pkg.T#a'', uri = ''file:///a/T.java''\<rparr>"

definition suiteB :: TestSuite where
  "suiteB = \<lparr>test = ''pkg.U#b'', uri = ''file:///b/U.java''\<rparr>"

definition noPort :: jserror where
  "noPort = ErrorObj ''Error'' ''no free port'' None []"

definition enoent :: jserror where
  "enoent = ErrorObj ''Error'' ''spawn /bin/sh ENOENT'' (Some ''ENOENT'') []"

definition requestA :: request where
  "requestA = \<lparr>req_debug = False, req_env = env_linux, req_javaHome = ''/jdk'',
                req_tests = Single suiteA, req_storagePath = ''/store''\<rparr>"

definition requestB :: request where
  "requestB = \<lparr>req_debug = True, req_env = env_linux, req_javaHome = ''/jdk'',
                req_tests = Many [suiteA, suiteB], req_storagePath = ''/store''\<rparr>"

section \<open>Properties\<close>

subsection \<open>Strings and paths\<close>

lemma join_str_Cons: "join_str sep (x # xs) = x @ concat (map (\<lambda>y. sep @ y) xs)"
  by (induction xs arbitrary: x) auto

lemma endsWith_suffix: "endsWith s suf \<longleftrightarrow> suffix suf s"
proof
  assume "endsWith s suf"
  then have "s = take (length s - length suf) s @ suf"
    by (metis append_take_drop_id endsWith_def)
  then show "suffix suf s" by (rule suffixI)
next
  assume "suffix suf s"
  then obtain zs where "s = zs @ suf" by (auto simp: suffix_def)
  then show "endsWith s suf" by (simp add: endsWith_def)
qed


lemma segments_path_jar: "segments [] ''path.jar'' = [''path.jar'']"
  by simp







lemma path_join_getClassPath: "path_join (e\<lparr>getClassPath := g\<rparr>) a b = path_join e a b"
  by (simp add: path_join_def)

subsection \<open>The manifest\<close>

lemma manifest_unfold:
  "constructManifestFile url nl classpaths =
     ''Class-Path:''
     @ concat (map (\<lambda>c. ('' '' @ nl @ '' '')
                      @ (if suffix ''.jar'' (url c) then url c else url c @ ''/''))
                classpaths)
     @ nl"
  by (simp add: constructManifestFile_def join_str_Cons endsWith_suffix Let_def comp_def)

text \<open>
  C4. The manifest is the header \<^verbatim>\<open>Class-Path:\<close>, then for every entry, in the order of
  the list, a space, the line terminator, a space and the file URL of the entry, left as
  it is when it ends in \<^verbatim>\<open>.jar\<close> and followed by \<^verbatim>\<open>/\<close> otherwise, and at the end one
  line terminator.
\<close>

theorem manifest_content:
  "constructManifestFile url nl classpaths =
     ''Class-Path:''
     @ concat (map (\<lambda>c. ('' '' @ nl @ '' '')
                      @ (if suffix ''.jar'' (url c) then url c else url c @ ''/''))
                classpaths)
     @ nl"
  by (rule manifest_unfold)

theorem manifest_content_witness:
  "constructManifestFile (\<lambda>p. ''file://'' @ p) [CHR 0x0A] [''/a/bin'', ''/a/lib/x.jar''] =
     ''Class-Path: '' @ [CHR 0x0A] @ '' file:///a/bin/ '' @ [CHR 0x0A] @ '' file:///a/lib/x.jar''
     @ [CHR 0x0A]"
  by (subst manifest_content) (simp add: suffix_def)

subsection \<open>The separator of the class path\<close>

lemma classpathSeparator_cases:
  "classpathSeparator p = (if p \<in> {''darwin'', ''linux''} then '':'' else '';'')"
  by (simp add: classpathSeparator_def)

text \<open>
  C8. On \<^verbatim>\<open>freebsd\<close>, which line 33 does not count as Windows, lines 242 to 245 choose
  \<^verbatim>\<open>;\<close>, and the class path handed to the JVM is joined with it: only \<^verbatim>\<open>darwin\<close> and
  \<^verbatim>\<open>linux\<close> get \<^verbatim>\<open>:\<close>.
\<close>

theorem separator_freebsd:
  "\<not> isWindows ''freebsd'' \<and> classpathSeparator ''freebsd'' = '';''
   \<and> fst (parseParams (env_linux\<lparr>platform := ''freebsd'', MAX_CLASS_PATH_LENGTH := 100\<rparr>)
            ''/jdk'' [''/a'', ''/b''] [] ''/store/1'' None False) =
       Resolved (Some [dquote @ ''/jdk/bin/java'' @ dquote, ''-cp'',
                       dquote @ ''/ext/out/src/../../server/runner-0.1.jar;/a;/b'' @ dquote,
                       ''com.microsoft.java.test.runner.JUnitLauncher''])"
  by code_simp

subsection \<open>The class path that is too long\<close>

lemma streamHandlers_trace:
  "\<exists>p' later. streamHandlers t evs (p, tr) = (p', tr @ later)"
proof (induction evs arbitrary: p tr)
  case Nil
  then show ?case by simp
next
  case (Cons ev evs)
  show ?case
  proof (cases ev)
    case OutputClose
    then show ?thesis using Cons.IH [of "resolve t p" tr] by simp
  next
    case (ArchiveError err)
    from Cons.IH [of "reject err p"
        "tr @ [LogError (''Failed to process too long class path issue. Error: '' @ toString err)]"]
    show ?thesis using ArchiveError by auto
  qed
qed

lemma streamHandlers_settled:
  "p \<noteq> Pending \<Longrightarrow> fst (streamHandlers t evs (p, tr)) = p"
proof (induction evs arbitrary: tr)
  case Nil
  then show ?case by simp
next
  case (Cons ev evs)
  then show ?case
    by (cases ev; cases p) (simp_all add: resolve_def reject_def)
qed

lemma streamHandlers_settled_trace:
  assumes "p \<noteq> Pending"
  shows "\<exists>later. streamHandlers t evs (p, tr) = (p, tr @ later)"
proof -
  obtain p' later where h: "streamHandlers t evs (p, tr) = (p', tr @ later)"
    using streamHandlers_trace by blast
  moreover have "fst (streamHandlers t evs (p, tr)) = p"
    using assms by (rule streamHandlers_settled)
  ultimately show ?thesis by auto
qed







text \<open>
  C10. When the directory creation fails with a code other than \<^verbatim>\<open>EEXIST\<close>, the promise is
  rejected with that error, whatever the stream does later, and the calls that follow
  the rejection in the same callback are made all the same: the write stream on
  \<^verbatim>\<open>path.jar\<close> is created, the archive is piped, the manifest appended and the archive
  finalised.
\<close>

theorem mkdirp_failure_continues:
  assumes "MAX_CLASS_PATH_LENGTH e < length (join_str sep cps)"
    and "mkdirp e (path_dirname e (path_join e sp ''path.jar'')) = Some err"
    and "code_of err \<noteq> Some ''EEXIST''"
  shows "\<exists>later.
     processLongClassPath e cps sep sp =
       (Rejected err,
        [Mkdirp (path_dirname e (path_join e sp ''path.jar'')),
         LogError (''Failed to create sub directory for this run. Storage path: '' @ toString err),
         CreateWriteStream (path_join e sp ''path.jar''),
         ArchivePipe (path_join e sp ''path.jar''),
         ArchiveAppend (constructManifestFile (fileUrl e) (eol e) cps) ''META-INF/MANIFEST.MF'',
         ArchiveFinalize] @ later)"
proof -
  let ?t = "path_join e sp ''path.jar''"
  let ?tr = "[Mkdirp (path_dirname e ?t),
         LogError (''Failed to create sub directory for this run. Storage path: '' @ toString err),
         CreateWriteStream ?t, ArchivePipe ?t,
         ArchiveAppend (constructManifestFile (fileUrl e) (eol e) cps) ''META-INF/MANIFEST.MF'',
         ArchiveFinalize]"
  have "processLongClassPath e cps sep sp = streamHandlers ?t (stream_events e) (Rejected err, ?tr)"
    using assms by (simp add: processLongClassPath_def Let_def reject_def)
  then show ?thesis
    using streamHandlers_settled_trace [of "Rejected err" ?t "stream_events e" ?tr] by simp
qed

theorem mkdirp_failure_continues_witness:
  "\<exists>later.
     processLongClassPath (env_linux\<lparr>mkdirp := \<lambda>d. Some eacces\<rparr>)
        [''/a/bin'', ''/a/lib/x.jar''] '':'' ''/store/1'' =
       (Rejected eacces,
        [Mkdirp ''/store/1'',
         LogError ''Failed to create sub directory for this run. Storage path: Error: EACCES: permission denied'',
         CreateWriteStream ''/store/1/path.jar'',
         ArchivePipe ''/store/1/path.jar'',
         ArchiveAppend
           (''Class-Path: '' @ [CHR 0x0A] @ '' file:///a/bin/ '' @ [CHR 0x0A]
            @ '' file:///a/lib/x.jar'' @ [CHR 0x0A])
           ''META-INF/MANIFEST.MF'',
         ArchiveFinalize] @ later)"
  using mkdirp_failure_continues [of "env_linux\<lparr>mkdirp := \<lambda>d. Some eacces\<rparr>" "'':''"
      "[''/a/bin'', ''/a/lib/x.jar'']" "''/store/1''" eacces]
  by (simp add: env_linux_def path_join_def posix_join_def path_normalize_def normalizeString_def
      eacces_def constructManifestFile_def endsWith_def)

subsection \<open>The child process\<close>

lemma onEvent_quiet:
  "\<not> settles ev \<Longrightarrow> settled (onEvent e s ev st) = settled st \<and>
     error (onEvent e s ev st) = error st @ stderrText [ev]"
  by (cases ev) simp_all

lemma deliver_quiet:
  "\<forall>ev \<in> set pre. \<not> settles ev \<Longrightarrow> settled st = Pending \<Longrightarrow>
   deliver e s st (pre @ evs) = deliver e s (deliver e s st pre) evs \<and>
   settled (deliver e s st pre) = Pending \<and>
   error (deliver e s st pre) = error st @ stderrText pre"
proof (induction pre arbitrary: st)
  case Nil
  then show ?case by simp
next
  case (Cons ev pre)
  have q: "\<not> settles ev" using Cons.prems by simp
  let ?st = "onEvent e s ev st"
  have a: "settled ?st = Pending" "error ?st = error st @ stderrText [ev]"
    using onEvent_quiet [OF q, of e s st] Cons.prems by simp_all
  have "\<forall>ev \<in> set pre. \<not> settles ev" using Cons.prems by simp
  from Cons.IH [OF this a(1)] a q show ?case
    by (cases ev) (simp_all add: Let_def)
qed

lemma stderrText_nonempty:
  "stderrText evs \<noteq> [] \<longleftrightarrow> (\<exists>d. d \<noteq> [] \<and> StderrData d \<in> set evs)"
  by (induction evs rule: stderrText.induct) auto

text \<open>
  C5. When the process exits while the promise of lines 159 to 203 is still pending,
  that is, when no \<^verbatim>\<open>error\<close> event and no other \<^verbatim>\<open>exit\<close> came before, the promise is
  rejected with the text of the standard-error chunks received before the exit if that
  text is not empty, and is resolved otherwise; the code and the signal of the exit, and
  the events that follow it, play no part. The text is not empty exactly when a
  non-empty chunk was received before the exit.
\<close>

theorem exit_settles_by_stderr:
  assumes "\<forall>ev \<in> set pre. \<not> settles ev"
  shows "fst (awaitProcess e params s u port dbg (pre @ PExit code signal # post)) =
           (if stderrText pre \<noteq> [] then Rejected (StringVal (stderrText pre))
            else Resolved Undefined)
         \<and> (stderrText pre \<noteq> [] \<longleftrightarrow> (\<exists>d. d \<noteq> [] \<and> StderrData d \<in> set pre))"
proof -
  define st0 where "st0 = (if dbg
       then \<lparr>error = [], settled = Pending,
             calls = [Exec (join_str '' '' params)] @
               [StartDebuggingAfter 500 u port]\<rparr>
       else \<lparr>error = [], settled = Pending, calls = [Exec (join_str '' '' params)]\<rparr>)"
  have s0: "settled st0 = Pending" "error st0 = []" by (simp_all add: st0_def)
  define st1 where "st1 = deliver e s st0 pre"
  have d: "deliver e s st0 (pre @ PExit code signal # post) = deliver e s st1 (PExit code signal # post)"
      "settled st1 = Pending" "error st1 = stderrText pre"
    using deliver_quiet [OF assms s0(1), of e s "PExit code signal # post"] s0(2)
    by (simp_all add: st1_def)
  have "settled (deliver e s st1 (PExit code signal # post)) =
          (if stderrText pre \<noteq> [] then Rejected (StringVal (stderrText pre)) else Resolved Undefined)"
    using d(2,3) by (simp add: Let_def reject_def resolve_def)
  moreover have "fst (awaitProcess e params s u port dbg (pre @ PExit code signal # post)) =
      settled (deliver e s st0 (pre @ PExit code signal # post))"
    by (simp add: awaitProcess_def st0_def Let_def)
  ultimately show ?thesis
    using d(1) stderrText_nonempty by simp
qed

theorem exit_settles_by_stderr_witness:
  "fst (awaitProcess env_linux [''java''] ''/store/1'' ''u'' None False
          ([StdoutData ''a'', StderrData ''warn'', PClose] @ PExit (Some 0) None # [])) =
     Rejected (StringVal ''warn'')
   \<and> fst (awaitProcess env_linux [''java''] ''/store/1'' ''u'' None False
          ([StdoutData ''a''] @ PExit (Some 1) None # [PClose])) = Resolved Undefined"
  using exit_settles_by_stderr [of "[StdoutData ''a'', StderrData ''warn'', PClose]" env_linux
      "[''java'']" "''/store/1''" "''u''" None False "Some 0" None "[]"]
    exit_settles_by_stderr [of "[StdoutData ''a'']" env_linux
      "[''java'']" "''/store/1''" "''u''" None False "Some 1" None "[PClose]"]
  by simp

text \<open>
  Without the two conditions the statement fails. A chunk of standard error that arrives
  after the exit is received, and added to \<^verbatim>\<open>error\<close>, during the run, yet the promise
  has been resolved; and after an \<^verbatim>\<open>error\<close> event the exit leaves the promise rejected
  with the error, though no chunk of standard error was received.
\<close>

theorem late_stderr_resolves:
  "StderrData ''late'' \<in> set [PExit (Some 0) None, StderrData ''late'', PClose]
   \<and> fst (runTest (env_linux\<lparr>proc_events := [PExit (Some 0) None, StderrData ''late'', PClose]\<rparr>)
            ''/jdk'' (Single suiteA) ''/store'' False) = Resolved Undefined
   \<and> error (handleAll env_linux ''/store/1'' \<lparr>error = [], settled = Pending, calls = []\<rparr>
              [PExit (Some 0) None, StderrData ''late'', PClose]) = ''late''
   \<and> settled (handleAll env_linux ''/store/1'' \<lparr>error = [], settled = Pending, calls = []\<rparr>
              [PExit (Some 0) None, StderrData ''late'', PClose]) = Resolved Undefined
   \<and> fst (runTest (env_linux\<lparr>proc_events := [PError enoent, PExit (Some 0) None, PClose]\<rparr>)
            ''/jdk'' (Single suiteA) ''/store'' False) = Rejected enoent"
  by code_simp

text \<open>
  An \<^verbatim>\<open>error\<close> event that comes before the exit settles the promise itself (line 164);
  the handler of the exit then finds it settled.
\<close>

lemma error_settles_first:
  assumes "\<forall>ev \<in> set pre. \<not> settles ev"
  shows "fst (awaitProcess e params s u port dbg (pre @ PError err # post)) = Rejected err"
proof -
  define st0 where "st0 = (if dbg
       then \<lparr>error = [], settled = Pending,
             calls = [Exec (join_str '' '' params)] @ [StartDebuggingAfter 500 u port]\<rparr>
       else \<lparr>error = [], settled = Pending, calls = [Exec (join_str '' '' params)]\<rparr>)"
  have s0: "settled st0 = Pending" by (simp add: st0_def)
  have d: "deliver e s st0 (pre @ PError err # post) = deliver e s (deliver e s st0 pre) (PError err # post)"
      "settled (deliver e s st0 pre) = Pending"
    using deliver_quiet [OF assms s0, of e s "PError err # post"] by simp_all
  have "settled (deliver e s (deliver e s st0 pre) (PError err # post)) = Rejected err"
    using d(2) by (cases err) (simp_all add: Let_def reject_def)
  moreover have "fst (awaitProcess e params s u port dbg (pre @ PError err # post)) =
      settled (deliver e s st0 (pre @ PError err # post))"
    by (simp add: awaitProcess_def st0_def Let_def)
  ultimately show ?thesis using d(1) by simp
qed

text \<open>The handlers that run after the promise has settled do not change it.\<close>

lemma onEvent_settled_once:
  "settled st \<noteq> Pending \<Longrightarrow> settled (onEvent e s ev st) = settled st"
proof (cases ev)
  case (PError err)
  assume "settled st \<noteq> Pending"
  then show ?thesis using PError
    by (cases err; cases "settled st") (simp_all add: reject_def)
next
  case (PExit code signal)
  assume "settled st \<noteq> Pending"
  then show ?thesis using PExit
    by (cases "settled st") (simp_all add: reject_def resolve_def)
qed simp_all

lemma handleAll_settled_once:
  "settled st \<noteq> Pending \<Longrightarrow> settled (handleAll e s st evs) = settled st"
  by (induction evs arbitrary: st) (simp_all add: handleAll_def onEvent_settled_once)

lemma deliver_handleAll:
  "settled (deliver e s st evs) = settled (handleAll e s st evs)"
proof (induction evs arbitrary: st)
  case Nil
  then show ?case by (simp add: handleAll_def)
next
  case (Cons ev evs)
  show ?case
  proof (cases "settled (onEvent e s ev st) = Pending")
    case True
    then show ?thesis using Cons.IH [of "onEvent e s ev st"] by (simp add: handleAll_def Let_def)
  next
    case False
    then show ?thesis
      using handleAll_settled_once [OF False, of e s evs] by (simp add: handleAll_def Let_def)
  qed
qed

text \<open>What the handlers call is added to what was called before.\<close>

lemma onEvent_calls_append: "\<exists>extra. calls (onEvent e s ev st) = calls st @ extra"
proof (cases ev)
  case (PError err)
  then show ?thesis by (cases err) simp_all
qed simp_all

lemma handleAll_calls_append: "\<exists>extra. calls (handleAll e s st evs) = calls st @ extra"
proof (induction evs arbitrary: st)
  case Nil
  then show ?case by (simp add: handleAll_def)
next
  case (Cons ev evs)
  obtain m1 where m1: "calls (onEvent e s ev st) = calls st @ m1"
    using onEvent_calls_append by blast
  obtain m2 where "calls (handleAll e s (onEvent e s ev st) evs) = calls (onEvent e s ev st) @ m2"
    using Cons.IH by blast
  then show ?case using m1 by (simp add: handleAll_def)
qed

lemma deliver_calls_append: "\<exists>extra. calls (deliver e s st evs) = calls st @ extra"
proof (induction evs arbitrary: st)
  case Nil
  then show ?case by simp
next
  case (Cons ev evs)
  obtain m1 where m1: "calls (onEvent e s ev st) = calls st @ m1"
    using onEvent_calls_append by blast
  obtain m2 where "calls (deliver e s (onEvent e s ev st) evs) = calls (onEvent e s ev st) @ m2"
    using Cons.IH by blast
  then show ?case using m1 by (simp add: Let_def)
qed

lemma handleAll_extends_deliver:
  "\<exists>extra. calls (handleAll e s st evs) = calls (deliver e s st evs) @ extra"
proof (induction evs arbitrary: st)
  case Nil
  then show ?case by (simp add: handleAll_def)
next
  case (Cons ev evs)
  show ?case
  proof (cases "settled (onEvent e s ev st) = Pending")
    case True
    then show ?thesis using Cons.IH [of "onEvent e s ev st"] by (simp add: handleAll_def Let_def)
  next
    case False
    then show ?thesis
      using handleAll_calls_append [of e s "onEvent e s ev st" evs]
      by (simp add: handleAll_def Let_def)
  qed
qed

lemma awaitProcess_exec:
  "Exec (join_str '' '' params) \<in> set (snd (awaitProcess e params s u port dbg evs))"
proof -
  define st0 where "st0 = (if dbg
       then \<lparr>error = [], settled = Pending,
             calls = [Exec (join_str '' '' params)] @ [StartDebuggingAfter 500 u port]\<rparr>
       else \<lparr>error = [], settled = Pending, calls = [Exec (join_str '' '' params)]\<rparr>)"
  have "Exec (join_str '' '' params) \<in> set (calls st0)" by (simp add: st0_def)
  moreover obtain extra where "calls (deliver e s st0 evs) = calls st0 @ extra"
    using deliver_calls_append by blast
  moreover have "snd (awaitProcess e params s u port dbg evs) = calls (deliver e s st0 evs)"
    by (simp add: awaitProcess_def st0_def Let_def)
  ultimately show ?thesis by simp
qed

lemma close_after_exit:
  "calls (handleAll env_linux ''/store/1'' \<lparr>error = [], settled = Pending, calls = []\<rparr>
            [PExit (Some 0) None, PClose]) =
     [FeedBack, OnDidChangeFire, Rimraf ''/store/1'']"
  by code_simp

subsection \<open>What a trace can hold\<close>

lemma streamHandlers_set:
  "set (snd (streamHandlers t evs (p, tr))) \<subseteq> set tr \<union> range LogError"
proof (induction evs arbitrary: p tr)
  case Nil
  then show ?case by simp
next
  case (Cons ev evs)
  show ?case
  proof (cases ev)
    case OutputClose
    then show ?thesis using Cons.IH [of "resolve t p" tr] by simp
  next
    case (ArchiveError err)
    then show ?thesis
      using Cons.IH [of "reject err p"
        "tr @ [LogError (''Failed to process too long class path issue. Error: '' @ toString err)]"]
      by auto
  qed
qed

lemma range_LogError_archiveCall: "x \<in> range LogError \<Longrightarrow> archiveCall x"
  by auto

lemma mkdirp_branch_calls:
  "(case r of
      None \<Rightarrow> (Pending, [Mkdirp d])
    | Some err \<Rightarrow>
        if code_of err \<noteq> Some ''EEXIST''
        then (reject err Pending,
              [Mkdirp d,
               LogError (''Failed to create sub directory for this run. Storage path: ''
                         @ toString err)])
        else (Pending, [Mkdirp d])) = (p, tr) \<Longrightarrow> \<forall>y \<in> set tr. archiveCall y"
  by (cases r) (auto split: if_splits)

lemma processLongClassPath_calls:
  assumes a: "x \<in> set (snd (processLongClassPath e cps sep sp))"
  shows "archiveCall x"
proof (cases "length (join_str sep cps) \<le> MAX_CLASS_PATH_LENGTH e")
  case True
  then show ?thesis using a by (simp add: processLongClassPath_def)
next
  case False
  let ?t = "path_join e sp ''path.jar''"
  let ?d = "path_dirname e ?t"
  let ?m = "(case mkdirp e ?d of
          None \<Rightarrow> (Pending, [Mkdirp ?d])
        | Some err \<Rightarrow>
            if code_of err \<noteq> Some ''EEXIST''
            then (reject err Pending,
                  [Mkdirp ?d,
                   LogError (''Failed to create sub directory for this run. Storage path: ''
                             @ toString err)])
            else (Pending, [Mkdirp ?d])) :: string promise \<times> effect list"
  let ?more = "[CreateWriteStream ?t, ArchivePipe ?t,
                ArchiveAppend (constructManifestFile (fileUrl e) (eol e) cps) ''META-INF/MANIFEST.MF'',
                ArchiveFinalize]"
  obtain p tr where ptr: "?m = (p, tr)" by (cases ?m)
  have tr: "\<forall>y \<in> set tr. archiveCall y"
    using ptr by (rule mkdirp_branch_calls)
  have "processLongClassPath e cps sep sp = streamHandlers ?t (stream_events e) (p, tr @ ?more)"
    unfolding processLongClassPath_def Let_def using False by (simp only: ptr if_False split)
  then have "x \<in> set (tr @ ?more) \<union> range LogError"
    using a streamHandlers_set [of ?t "stream_events e" p "tr @ ?more"] by auto
  then show ?thesis using tr by auto
qed

lemma parseParams_calls:
  "x \<in> set (snd (parseParams e jh cps suites sp port dbg)) \<Longrightarrow> archiveCall x"
proof -
  assume a: "x \<in> set (snd (parseParams e jh cps suites sp port dbg))"
  let ?found = "glob_sync e ''**/com.microsoft.java.test.runner-*.jar'' (path_resolve e [dirname e, ''../../server''])"
  show ?thesis
  proof (cases "?found = []")
    case True
    then show ?thesis using a by (simp add: parseParams_def Let_def)
  next
    case False
    let ?r = "processLongClassPath e
               (path_resolve e [path_resolve e [dirname e, ''../../server''], hd ?found] # cps)
               (classpathSeparator (platform e)) sp"
    have "snd (parseParams e jh cps suites sp port dbg) = snd ?r"
      using False
      by (cases ?r; cases "fst ?r") (simp_all add: parseParams_def Let_def)
    then show ?thesis using a processLongClassPath_calls by simp
  qed
qed

lemma rimrafStorage_calls: "x \<in> set (rimrafStorage e s) \<Longrightarrow> processCall x"
  by (auto simp: rimrafStorage_def split: option.splits)

lemma onEvent_calls:
  "\<forall>x \<in> set (calls st). processCall x \<Longrightarrow> \<forall>x \<in> set (calls (onEvent e s ev st)). processCall x"
proof (cases ev)
  case (PError err)
  assume "\<forall>x \<in> set (calls st). processCall x"
  then show ?thesis using PError by (cases err) auto
next
  case PClose
  assume "\<forall>x \<in> set (calls st). processCall x"
  then show ?thesis using PClose rimrafStorage_calls by auto
qed auto

lemma deliver_calls:
  "\<forall>x \<in> set (calls st). processCall x \<Longrightarrow> \<forall>x \<in> set (calls (deliver e s st evs)). processCall x"
proof (induction evs arbitrary: st)
  case Nil
  then show ?case by simp
next
  case (Cons ev evs)
  have "\<forall>x \<in> set (calls (onEvent e s ev st)). processCall x"
    using Cons.prems by (rule onEvent_calls)
  then show ?case using Cons.IH by (simp add: Let_def)
qed

lemma awaitProcess_calls:
  "x \<in> set (snd (awaitProcess e params s u port dbg evs)) \<Longrightarrow> processCall x"
proof -
  assume a: "x \<in> set (snd (awaitProcess e params s u port dbg evs))"
  define st0 where "st0 = (if dbg
       then \<lparr>error = [], settled = Pending,
             calls = [Exec (join_str '' '' params)] @
               [StartDebuggingAfter 500 u port]\<rparr>
       else \<lparr>error = [], settled = Pending, calls = [Exec (join_str '' '' params)]\<rparr>)"
  have "\<forall>x \<in> set (calls st0). processCall x" by (simp add: st0_def)
  then have "\<forall>x \<in> set (calls (deliver e s st0 evs)). processCall x" by (rule deliver_calls)
  moreover have "snd (awaitProcess e params s u port dbg evs) = calls (deliver e s st0 evs)"
    by (simp add: awaitProcess_def st0_def Let_def)
  ultimately show ?thesis using a by simp
qed

lemma archiveCall_not_Exec: "archiveCall x \<Longrightarrow> x \<noteq> Exec c"
  by (cases x) simp_all

lemma processCall_not_Exec_rimraf: "x \<in> set (rimrafStorage e s) \<Longrightarrow> x \<noteq> Exec c"
  by (auto simp: rimrafStorage_def split: option.splits)

subsection \<open>The paths through \<^verbatim>\<open>runTest\<close>\<close>

lemma runTest_empty:
  "testListOf ts = [] \<Longrightarrow> snd (runTest e jh ts sp dbg) = [OutputClear, OutputShow True]
     \<and> (\<exists>ex. fst (runTest e jh ts sp dbg) = Rejected ex)"
  by (simp add: runTest_def)

lemma runTest_port_failure:
  assumes "testListOf ts = first # others" and "dbg" and "getPort e = Inl ex"
  shows "runTest e jh ts sp dbg =
     (Rejected ex,
      [OutputClear, OutputShow True, GetClassPath (uri first),
       ShowErrorMessage (''Failed to get free port for debugging. Details: '' @ toString ex @ ''.''),
       LogError (''Failed to get free port for debugging. Details: '' @ toString ex @ ''.'')])"
  using assms by (simp add: runTest_def Let_def)

lemma runTest_params_rejected:
  assumes "testListOf ts = first # others"
    and "(if dbg then map_sum id Some (getPort e) else Inr None) = Inr port"
    and "parseParams e jh (getClassPath e (uri first)) (map test (first # others))
           (path_join e sp (now e)) port dbg = (Rejected ex, ptr)"
  shows "runTest e jh ts sp dbg =
     (Rejected ex,
      [OutputClear, OutputShow True, GetClassPath (uri first)] @ ptr
      @ [LogError (''Exception occers while parsing params. Details: '' @ toString ex)]
      @ rimrafStorage e (path_join e sp (now e)))"
  using assms by (simp add: runTest_def Let_def)

lemma runTest_params_pending:
  assumes "testListOf ts = first # others"
    and "(if dbg then map_sum id Some (getPort e) else Inr None) = Inr port"
    and "parseParams e jh (getClassPath e (uri first)) (map test (first # others))
           (path_join e sp (now e)) port dbg = (Pending, ptr)"
  shows "runTest e jh ts sp dbg =
     (Pending, [OutputClear, OutputShow True, GetClassPath (uri first)] @ ptr)"
  using assms by (simp add: runTest_def Let_def)

lemma runTest_params_null:
  assumes "testListOf ts = first # others"
    and "(if dbg then map_sum id Some (getPort e) else Inr None) = Inr port"
    and "parseParams e jh (getClassPath e (uri first)) (map test (first # others))
           (path_join e sp (now e)) port dbg = (Resolved None, ptr)"
  shows "runTest e jh ts sp dbg =
     (Resolved Null, [OutputClear, OutputShow True, GetClassPath (uri first)] @ ptr)"
  using assms by (simp add: runTest_def Let_def)

lemma runTest_spawned:
  assumes "testListOf ts = first # others"
    and "(if dbg then map_sum id Some (getPort e) else Inr None) = Inr port"
    and "parseParams e jh (getClassPath e (uri first)) (map test (first # others))
           (path_join e sp (now e)) port dbg = (Resolved (Some params), ptr)"
  shows "runTest e jh ts sp dbg =
     ((case fst (awaitProcess e params (path_join e sp (now e)) (uri first) port dbg (proc_events e)) of
         Resolved v \<Rightarrow> Resolved Undefined | Rejected ex \<Rightarrow> Rejected ex | Pending \<Rightarrow> Pending),
      [OutputClear, OutputShow True, GetClassPath (uri first)] @ ptr
      @ NewTestResultAnalyzer (first # others)
        # snd (awaitProcess e params (path_join e sp (now e)) (uri first) port dbg (proc_events e)))"
  using assms
  by (cases "awaitProcess e params (path_join e sp (now e)) (uri first) port dbg (proc_events e)";
      cases "fst (awaitProcess e params (path_join e sp (now e)) (uri first) port dbg (proc_events e))")
     (simp_all add: runTest_def Let_def)

lemma processCall_rimrafStorage: "\<forall>x \<in> set (rimrafStorage e s). processCall x"
  using rimrafStorage_calls by blast

lemma runTest_shape:
  assumes t: "testListOf ts = first # others"
  shows "\<exists>tr. snd (runTest e jh ts sp dbg) = [OutputClear, OutputShow True, GetClassPath (uri first)] @ tr
        \<and> (\<forall>x \<in> set tr. archiveCall x \<or> processCall x)"
proof (cases "if dbg then map_sum id Some (getPort e) else Inr None")
  case (Inl ex)
  then have "dbg" "getPort e = Inl ex"
    by (auto split: if_splits simp: map_sum_def split: sum.splits)
  from runTest_port_failure [OF t this, of jh sp]
  have "snd (runTest e jh ts sp dbg) =
      [OutputClear, OutputShow True, GetClassPath (uri first)]
      @ [ShowErrorMessage (''Failed to get free port for debugging. Details: '' @ toString ex @ ''.''),
         LogError (''Failed to get free port for debugging. Details: '' @ toString ex @ ''.'')]"
    by simp
  moreover have "\<forall>x \<in> set [ShowErrorMessage (''Failed to get free port for debugging. Details: '' @ toString ex @ ''.''),
         LogError (''Failed to get free port for debugging. Details: '' @ toString ex @ ''.'')].
      archiveCall x \<or> processCall x"
    by simp
  ultimately show ?thesis by blast
next
  case (Inr port)
  let ?pp = "parseParams e jh (getClassPath e (uri first)) (map test (first # others))
           (path_join e sp (now e)) port dbg"
  obtain r ptr where pp: "?pp = (r, ptr)" by (cases ?pp)
  have ptr: "\<forall>x \<in> set ptr. archiveCall x"
    using parseParams_calls [of _ e jh "getClassPath e (uri first)" "map test (first # others)"
        "path_join e sp (now e)" port dbg] pp by simp
  show ?thesis
  proof (cases r)
    case Pending
    then have "?pp = (Pending, ptr)" using pp by simp
    from runTest_params_pending [OF t Inr this] ptr show ?thesis by simp
  next
    case (Rejected ex)
    then have "?pp = (Rejected ex, ptr)" using pp by simp
    from runTest_params_rejected [OF t Inr this] ptr processCall_rimrafStorage [of e "path_join e sp (now e)"]
    show ?thesis by auto
  next
    case (Resolved v)
    show ?thesis
    proof (cases v)
      case None
      then have "?pp = (Resolved None, ptr)" using pp Resolved by simp
      from runTest_params_null [OF t Inr this] ptr show ?thesis by simp
    next
      case (Some params)
      have "\<forall>x \<in> set (snd (awaitProcess e params (path_join e sp (now e)) (uri first) port dbg (proc_events e))). processCall x"
        using awaitProcess_calls by blast
      moreover have "?pp = (Resolved (Some params), ptr)"
        using pp Resolved Some by simp
      note runTest_spawned [OF t Inr this]
      ultimately show ?thesis using ptr by auto
    qed
  qed
qed

lemma runTest_no_SetRunning: "SetRunning b \<notin> set (snd (runTest e jh ts sp dbg))"
proof (cases "testListOf ts")
  case Nil
  then show ?thesis using runTest_empty [of ts e jh sp dbg] by simp
next
  case (Cons first others)
  from runTest_shape [OF this, of e jh sp dbg] obtain tr where
    tr: "snd (runTest e jh ts sp dbg) = [OutputClear, OutputShow True, GetClassPath (uri first)] @ tr"
      "\<forall>x \<in> set tr. archiveCall x \<or> processCall x"
    by blast
  have "\<not> (archiveCall (SetRunning b) \<or> processCall (SetRunning b))" by simp
  then have "SetRunning b \<notin> set tr" using tr(2) by blast
  then show ?thesis using tr(1) by simp
qed

subsection \<open>No launcher\<close>

lemma parseParams_no_launcher:
  "glob_sync e ''**/com.microsoft.java.test.runner-*.jar'' (path_resolve e [dirname e, ''../../server'']) = []
   \<Longrightarrow> parseParams e jh cps suites sp port dbg =
       (Resolved None, [LogError ''Failed to locate test server runtime!''])"
  by (simp add: parseParams_def Let_def)

text \<open>
  C6. When the glob search of line 238 finds nothing, \<^verbatim>\<open>parseParams\<close> logs an error and
  resolves to \<^verbatim>\<open>null\<close>; \<^verbatim>\<open>runTest\<close> spawns no process whatever its arguments, and, when it
  gets as far as calling \<^verbatim>\<open>parseParams\<close> (there is a first suite, and in debug mode a port
  was found), it resolves to \<^verbatim>\<open>null\<close> after that one log entry.
\<close>

theorem no_launcher_no_process:
  assumes g: "glob_sync e ''**/com.microsoft.java.test.runner-*.jar''
                (path_resolve e [dirname e, ''../../server'']) = []"
  shows "parseParams e jh cps suites sp port dbg =
           (Resolved None, [LogError ''Failed to locate test server runtime!''])
         \<and> (\<forall>c. Exec c \<notin> set (snd (runTest e jh ts sp' dbg')))
         \<and> (testListOf ts = first # others \<and> (dbg' \<longrightarrow> (\<exists>p. getPort e = Inr p)) \<longrightarrow>
              runTest e jh ts sp' dbg' =
                (Resolved Null,
                 [OutputClear, OutputShow True, GetClassPath (uri first),
                  LogError ''Failed to locate test server runtime!'']))"
proof (intro conjI allI impI)
  show "parseParams e jh cps suites sp port dbg =
           (Resolved None, [LogError ''Failed to locate test server runtime!''])"
    using g by (rule parseParams_no_launcher)
next
  fix c
  show "Exec c \<notin> set (snd (runTest e jh ts sp' dbg'))"
  proof (cases "testListOf ts")
    case Nil
    then show ?thesis by (simp add: runTest_def)
  next
    case (Cons f os)
    show ?thesis
    proof (cases "if dbg' then map_sum id Some (getPort e) else Inr None")
      case (Inl ex)
      then show ?thesis using Cons by (simp add: runTest_def Let_def)
    next
      case (Inr port')
      then show ?thesis using Cons parseParams_no_launcher [OF g]
        by (simp add: runTest_def Let_def)
    qed
  qed
next
  assume h: "testListOf ts = first # others \<and> (dbg' \<longrightarrow> (\<exists>p. getPort e = Inr p))"
  then obtain port' where "(if dbg' then map_sum id Some (getPort e) else Inr None) = Inr port'"
    by (cases dbg') auto
  then show "runTest e jh ts sp' dbg' =
                (Resolved Null,
                 [OutputClear, OutputShow True, GetClassPath (uri first),
                  LogError ''Failed to locate test server runtime!''])"
    using h parseParams_no_launcher [OF g] by (simp add: runTest_def Let_def)
qed

theorem no_launcher_no_process_witness:
  "parseParams (env_linux\<lparr>glob_sync := \<lambda>p c. []\<rparr>) ''/jdk'' [''/a/bin''] [''pkg.T#a''] ''/store/1'' None False =
      (Resolved None, [LogError ''Failed to locate test server runtime!''])
   \<and> runTest (env_linux\<lparr>glob_sync := \<lambda>p c. []\<rparr>) ''/jdk''
        (Single \<lparr>test = ''pkg.T#a'', uri = ''file:///a/T.java''\<rparr>) ''/store'' True =
        (Resolved Null,
         [OutputClear, OutputShow True, GetClassPath ''file:///a/T.java'',
          LogError ''Failed to locate test server runtime!''])"
  using no_launcher_no_process [of "env_linux\<lparr>glob_sync := \<lambda>p c. []\<rparr>" "''/jdk''" "[''/a/bin'']"
      "[''pkg.T#a'']" "''/store/1''" None False "Single \<lparr>test = ''pkg.T#a'', uri = ''file:///a/T.java''\<rparr>"
      "''/store''" True "\<lparr>test = ''pkg.T#a'', uri = ''file:///a/T.java''\<rparr>" "[]"]
  by (simp add: env_linux_def)

subsection \<open>The class path of a run\<close>

lemma processLongClassPath_getClassPath:
  "processLongClassPath (e\<lparr>getClassPath := g\<rparr>) cps sep sp = processLongClassPath e cps sep sp"
  by (simp add: processLongClassPath_def Let_def path_join_getClassPath)

lemma parseParams_getClassPath:
  "parseParams (e\<lparr>getClassPath := g\<rparr>) jh cps suites sp port dbg = parseParams e jh cps suites sp port dbg"
  by (simp add: parseParams_def processLongClassPath_getClassPath Let_def)

lemma rimrafStorage_getClassPath:
  "rimrafStorage (e\<lparr>getClassPath := g\<rparr>) s = rimrafStorage e s"
  by (simp add: rimrafStorage_def)

lemma onEvent_getClassPath:
  "onEvent (e\<lparr>getClassPath := g\<rparr>) s ev st = onEvent e s ev st"
proof (cases ev)
  case (PError err)
  then show ?thesis by (cases err) simp_all
qed (simp_all add: rimrafStorage_getClassPath)

lemma deliver_getClassPath:
  "deliver (e\<lparr>getClassPath := g\<rparr>) s st evs = deliver e s st evs"
  by (induction evs arbitrary: st) (simp_all add: onEvent_getClassPath Let_def)

lemma awaitProcess_getClassPath:
  "awaitProcess (e\<lparr>getClassPath := g\<rparr>) ps s u port dbg evs = awaitProcess e ps s u port dbg evs"
  by (simp add: awaitProcess_def deliver_getClassPath Let_def)

lemma classPathQueries_append:
  "classPathQueries (xs @ ys) = classPathQueries xs @ classPathQueries ys"
  by (induction xs rule: classPathQueries.induct) simp_all

lemma classPathQueries_none:
  "\<forall>x \<in> set tr. archiveCall x \<or> processCall x \<Longrightarrow> classPathQueries tr = []"
  by (induction tr rule: classPathQueries.induct) auto

lemma runTest_other_suites:
  assumes "map test others' = map test others"
  shows "fst (runTest e jh (Many (first # others')) sp dbg) = fst (runTest e jh (Many (first # others)) sp dbg)
     \<and> map forgetSuites (snd (runTest e jh (Many (first # others')) sp dbg)) =
        map forgetSuites (snd (runTest e jh (Many (first # others)) sp dbg))"
  using assms
  by (auto simp: runTest_def Let_def split: sum.splits prod.splits promise.splits option.splits)

text \<open>The class path that \<^verbatim>\<open>parseParams\<close> is given reaches the command line or the manifest.\<close>

lemma parseParams_found_short:
  assumes "glob_sync e ''**/com.microsoft.java.test.runner-*.jar''
             (path_resolve e [dirname e, ''../../server'']) = launcher # extra"
    and "length (join_str (classpathSeparator (platform e))
           (path_resolve e [path_resolve e [dirname e, ''../../server''], launcher] # cps))
         \<le> MAX_CLASS_PATH_LENGTH e"
  shows "parseParams e jh cps suites st port dbg =
     (Resolved (Some
        ([dquote @ path_resolve e [jh @ ''/bin/java''] @ dquote, ''-cp'',
          dquote @ join_str (classpathSeparator (platform e))
                     (path_resolve e [path_resolve e [dirname e, ''../../server''], launcher] # cps)
                 @ dquote]
         @ (if dbg then
              [''-Xdebug'',
               ''-Xrunjdwp:transport=dt_socket,server=y,suspend=y,address=''
                 @ (case port of None \<Rightarrow> ''undefined'' | Some n \<Rightarrow> digits n)]
            else [])
         @ [''com.microsoft.java.test.runner.JUnitLauncher''] @ suites)), [])"
  using assms by (simp add: parseParams_def processLongClassPath_def Let_def)

lemma processLongClassPath_long_append:
  assumes "MAX_CLASS_PATH_LENGTH e < length (join_str sep cps)"
  shows "ArchiveAppend (constructManifestFile (fileUrl e) (eol e) cps) ''META-INF/MANIFEST.MF''
           \<in> set (snd (processLongClassPath e cps sep sp))"
proof -
  let ?t = "path_join e sp ''path.jar''"
  let ?d = "path_dirname e ?t"
  let ?m = "(case mkdirp e ?d of
          None \<Rightarrow> (Pending, [Mkdirp ?d])
        | Some err \<Rightarrow>
            if code_of err \<noteq> Some ''EEXIST''
            then (reject err Pending,
                  [Mkdirp ?d,
                   LogError (''Failed to create sub directory for this run. Storage path: ''
                             @ toString err)])
            else (Pending, [Mkdirp ?d])) :: string promise \<times> effect list"
  let ?tail = "[CreateWriteStream ?t, ArchivePipe ?t,
                ArchiveAppend (constructManifestFile (fileUrl e) (eol e) cps) ''META-INF/MANIFEST.MF'',
                ArchiveFinalize]"
  obtain p tr where ptr: "?m = (p, tr)" by (cases ?m)
  have long: "\<not> length (join_str sep cps) \<le> MAX_CLASS_PATH_LENGTH e" using assms by simp
  have "processLongClassPath e cps sep sp = streamHandlers ?t (stream_events e) (p, tr @ ?tail)"
    unfolding processLongClassPath_def Let_def using long by (simp only: ptr if_False split)
  moreover obtain p' later where
    "streamHandlers ?t (stream_events e) (p, tr @ ?tail) = (p', (tr @ ?tail) @ later)"
    using streamHandlers_trace by blast
  ultimately show ?thesis by simp
qed

lemma parseParams_found_long:
  assumes "glob_sync e ''**/com.microsoft.java.test.runner-*.jar''
             (path_resolve e [dirname e, ''../../server'']) = launcher # extra"
    and "MAX_CLASS_PATH_LENGTH e < length (join_str (classpathSeparator (platform e))
           (path_resolve e [path_resolve e [dirname e, ''../../server''], launcher] # cps))"
  shows "ArchiveAppend
           (constructManifestFile (fileUrl e) (eol e)
              (path_resolve e [path_resolve e [dirname e, ''../../server''], launcher] # cps))
           ''META-INF/MANIFEST.MF''
         \<in> set (snd (parseParams e jh cps suites st port dbg))"
proof -
  let ?cps = "path_resolve e [path_resolve e [dirname e, ''../../server''], launcher] # cps"
  let ?r = "processLongClassPath e ?cps (classpathSeparator (platform e)) st"
  have "snd (parseParams e jh cps suites st port dbg) = snd ?r"
    using assms(1)
    by (cases ?r; cases "fst ?r") (simp_all add: parseParams_def Let_def)
  then show ?thesis using processLongClassPath_long_append [OF assms(2), of st] by simp
qed

lemma runTest_trace_parseParams:
  assumes t: "testListOf ts = first # others"
    and p: "(if dbg then map_sum id Some (getPort e) else Inr None) = Inr port"
  shows "\<exists>rest. snd (runTest e jh ts sp dbg) =
     [OutputClear, OutputShow True, GetClassPath (uri first)]
     @ snd (parseParams e jh (getClassPath e (uri first)) (map test (first # others))
              (path_join e sp (now e)) port dbg)
     @ rest"
proof -
  let ?pp = "parseParams e jh (getClassPath e (uri first)) (map test (first # others))
           (path_join e sp (now e)) port dbg"
  obtain r ptr where pp: "?pp = (r, ptr)" by (cases ?pp)
  show ?thesis
  proof (cases r)
    case Pending
    then have "?pp = (Pending, ptr)" using pp by simp
    from runTest_params_pending [OF t p this] pp show ?thesis by simp
  next
    case (Rejected ex)
    then have "?pp = (Rejected ex, ptr)" using pp by simp
    from runTest_params_rejected [OF t p this] pp show ?thesis by simp
  next
    case (Resolved v)
    show ?thesis
    proof (cases v)
      case None
      then have "?pp = (Resolved None, ptr)" using pp Resolved by simp
      from runTest_params_null [OF t p this] pp show ?thesis by simp
    next
      case (Some params)
      then have "?pp = (Resolved (Some params), ptr)" using pp Resolved by simp
      from runTest_spawned [OF t p this] pp show ?thesis by simp
    qed
  qed
qed

lemma runTest_exec:
  assumes t: "testListOf ts = first # others"
    and p: "(if dbg then map_sum id Some (getPort e) else Inr None) = Inr port"
    and r: "fst (parseParams e jh (getClassPath e (uri first)) (map test (first # others))
              (path_join e sp (now e)) port dbg) = Resolved (Some params)"
  shows "Exec (join_str '' '' params) \<in> set (snd (runTest e jh ts sp dbg))"
proof -
  let ?pp = "parseParams e jh (getClassPath e (uri first)) (map test (first # others))
           (path_join e sp (now e)) port dbg"
  have "?pp = (Resolved (Some params), snd ?pp)" using r by (metis prod.collapse)
  from runTest_spawned [OF t p this]
    awaitProcess_exec [of params e "path_join e sp (now e)" "uri first" port dbg "proc_events e"]
  show ?thesis by simp
qed

text \<open>
  C9. A run on one or more suites asks the class-path manager once, for the document of
  the first suite; it depends on the manager only through the answer for that document;
  and the documents of the other suites play no part in it: with other suites of the same
  test names the promise ends the same way and the same calls are made, up to the list
  handed to the result analyzer. The answer for the first document is the class path of
  the run: once the port is settled, \<^verbatim>\<open>parseParams\<close> is called with it, the calls of
  \<^verbatim>\<open>parseParams\<close> are in the trace, and the command line it builds is the one executed.
  With a launcher found, when the launcher and that class path joined fit the maximum,
  the command executed carries them, joined, after \<^verbatim>\<open>-cp\<close>; when they do not, the manifest
  appended to the archive lists them.
\<close>

theorem classpath_from_first_suite:
  assumes t: "testListOf ts = first # others"
  shows "classPathQueries (snd (runTest e jh ts sp dbg)) = [uri first]
   \<and> (g (uri first) = getClassPath e (uri first) \<longrightarrow>
        runTest (e\<lparr>getClassPath := g\<rparr>) jh ts sp dbg = runTest e jh ts sp dbg)
   \<and> (map test others' = map test others \<longrightarrow>
        fst (runTest e jh (Many (first # others')) sp dbg) = fst (runTest e jh ts sp dbg)
        \<and> map forgetSuites (snd (runTest e jh (Many (first # others')) sp dbg)) =
           map forgetSuites (snd (runTest e jh ts sp dbg)))
   \<and> ((if dbg then map_sum id Some (getPort e) else Inr None) = Inr port \<longrightarrow>
        (\<exists>rest. snd (runTest e jh ts sp dbg) =
           [OutputClear, OutputShow True, GetClassPath (uri first)]
           @ snd (parseParams e jh (getClassPath e (uri first)) (map test (first # others))
                    (path_join e sp (now e)) port dbg)
           @ rest)
        \<and> (fst (parseParams e jh (getClassPath e (uri first)) (map test (first # others))
                   (path_join e sp (now e)) port dbg) = Resolved (Some params) \<longrightarrow>
             Exec (join_str '' '' params) \<in> set (snd (runTest e jh ts sp dbg))))
   \<and> ((if dbg then map_sum id Some (getPort e) else Inr None) = Inr port
        \<and> glob_sync e ''**/com.microsoft.java.test.runner-*.jar''
             (path_resolve e [dirname e, ''../../server'']) = launcher # launchers
        \<and> length (join_str (classpathSeparator (platform e))
              (path_resolve e [path_resolve e [dirname e, ''../../server''], launcher]
               # getClassPath e (uri first)))
            \<le> MAX_CLASS_PATH_LENGTH e \<longrightarrow>
        Exec (join_str '' ''
               ([dquote @ path_resolve e [jh @ ''/bin/java''] @ dquote, ''-cp'',
                 dquote @ join_str (classpathSeparator (platform e))
                            (path_resolve e [path_resolve e [dirname e, ''../../server''], launcher]
                             # getClassPath e (uri first))
                        @ dquote]
                @ (if dbg then
                     [''-Xdebug'',
                      ''-Xrunjdwp:transport=dt_socket,server=y,suspend=y,address=''
                        @ (case port of None \<Rightarrow> ''undefined'' | Some n \<Rightarrow> digits n)]
                   else [])
                @ [''com.microsoft.java.test.runner.JUnitLauncher''] @ map test (first # others)))
          \<in> set (snd (runTest e jh ts sp dbg)))
   \<and> ((if dbg then map_sum id Some (getPort e) else Inr None) = Inr port
        \<and> glob_sync e ''**/com.microsoft.java.test.runner-*.jar''
             (path_resolve e [dirname e, ''../../server'']) = launcher # launchers
        \<and> MAX_CLASS_PATH_LENGTH e
            < length (join_str (classpathSeparator (platform e))
                (path_resolve e [path_resolve e [dirname e, ''../../server''], launcher]
                 # getClassPath e (uri first))) \<longrightarrow>
        ArchiveAppend
          (constructManifestFile (fileUrl e) (eol e)
             (path_resolve e [path_resolve e [dirname e, ''../../server''], launcher]
              # getClassPath e (uri first)))
          ''META-INF/MANIFEST.MF''
          \<in> set (snd (runTest e jh ts sp dbg)))"
proof (intro conjI impI)
  from runTest_shape [OF t, of e jh sp dbg] obtain tr where
    tr: "snd (runTest e jh ts sp dbg) =
           [OutputClear, OutputShow True, GetClassPath (uri first)] @ tr"
      "\<forall>x \<in> set tr. archiveCall x \<or> processCall x"
    by blast
  have "classPathQueries tr = []" using tr(2) by (rule classPathQueries_none)
  then show "classPathQueries (snd (runTest e jh ts sp dbg)) = [uri first]"
    using tr(1) by simp
next
  assume "g (uri first) = getClassPath e (uri first)"
  then show "runTest (e\<lparr>getClassPath := g\<rparr>) jh ts sp dbg = runTest e jh ts sp dbg"
    using t
    by (simp add: runTest_def Let_def parseParams_getClassPath awaitProcess_getClassPath
        rimrafStorage_getClassPath path_join_getClassPath
        cong: sum.case_cong prod.case_cong promise.case_cong option.case_cong)
next
  have same: "runTest e jh ts sp dbg = runTest e jh (Many (first # others)) sp dbg"
    using t by (simp add: runTest_def)
  assume m: "map test others' = map test others"
  show "fst (runTest e jh (Many (first # others')) sp dbg) = fst (runTest e jh ts sp dbg)"
    using runTest_other_suites [OF m] same by simp
  show "map forgetSuites (snd (runTest e jh (Many (first # others')) sp dbg)) =
           map forgetSuites (snd (runTest e jh ts sp dbg))"
    using runTest_other_suites [OF m] same by simp
next
  assume p: "(if dbg then map_sum id Some (getPort e) else Inr None) = Inr port"
  show "\<exists>rest. snd (runTest e jh ts sp dbg) =
           [OutputClear, OutputShow True, GetClassPath (uri first)]
           @ snd (parseParams e jh (getClassPath e (uri first)) (map test (first # others))
                    (path_join e sp (now e)) port dbg)
           @ rest"
    using t p by (rule runTest_trace_parseParams)
next
  assume p: "(if dbg then map_sum id Some (getPort e) else Inr None) = Inr port"
    and r: "fst (parseParams e jh (getClassPath e (uri first)) (map test (first # others))
                   (path_join e sp (now e)) port dbg) = Resolved (Some params)"
  show "Exec (join_str '' '' params) \<in> set (snd (runTest e jh ts sp dbg))"
    using t p r by (rule runTest_exec)
next
  let ?cp = "path_resolve e [path_resolve e [dirname e, ''../../server''], launcher]
               # getClassPath e (uri first)"
  assume h: "(if dbg then map_sum id Some (getPort e) else Inr None) = Inr port
        \<and> glob_sync e ''**/com.microsoft.java.test.runner-*.jar''
             (path_resolve e [dirname e, ''../../server'']) = launcher # launchers
        \<and> length (join_str (classpathSeparator (platform e)) ?cp) \<le> MAX_CLASS_PATH_LENGTH e"
  then have p: "(if dbg then map_sum id Some (getPort e) else Inr None) = Inr port"
    and g: "glob_sync e ''**/com.microsoft.java.test.runner-*.jar''
             (path_resolve e [dirname e, ''../../server'']) = launcher # launchers"
    and s: "length (join_str (classpathSeparator (platform e)) ?cp) \<le> MAX_CLASS_PATH_LENGTH e"
    by simp_all
  note pp = parseParams_found_short [OF g s, where jh = jh and suites = "map test (first # others)"
      and st = "path_join e sp (now e)" and dbg = dbg and port = port]
  have "fst (parseParams e jh (getClassPath e (uri first)) (map test (first # others))
              (path_join e sp (now e)) port dbg) =
        Resolved (Some
          ([dquote @ path_resolve e [jh @ ''/bin/java''] @ dquote, ''-cp'',
            dquote @ join_str (classpathSeparator (platform e)) ?cp @ dquote]
           @ (if dbg then
                [''-Xdebug'',
                 ''-Xrunjdwp:transport=dt_socket,server=y,suspend=y,address=''
                   @ (case port of None \<Rightarrow> ''undefined'' | Some n \<Rightarrow> digits n)]
              else [])
           @ [''com.microsoft.java.test.runner.JUnitLauncher''] @ map test (first # others)))"
    by (simp only: pp fst_conv)
  from runTest_exec [OF t p this]
  show "Exec (join_str '' ''
               ([dquote @ path_resolve e [jh @ ''/bin/java''] @ dquote, ''-cp'',
                 dquote @ join_str (classpathSeparator (platform e)) ?cp @ dquote]
                @ (if dbg then
                     [''-Xdebug'',
                      ''-Xrunjdwp:transport=dt_socket,server=y,suspend=y,address=''
                        @ (case port of None \<Rightarrow> ''undefined'' | Some n \<Rightarrow> digits n)]
                   else [])
                @ [''com.microsoft.java.test.runner.JUnitLauncher''] @ map test (first # others)))
          \<in> set (snd (runTest e jh ts sp dbg))" .
next
  let ?cp = "path_resolve e [path_resolve e [dirname e, ''../../server''], launcher]
               # getClassPath e (uri first)"
  assume h: "(if dbg then map_sum id Some (getPort e) else Inr None) = Inr port
        \<and> glob_sync e ''**/com.microsoft.java.test.runner-*.jar''
             (path_resolve e [dirname e, ''../../server'']) = launcher # launchers
        \<and> MAX_CLASS_PATH_LENGTH e < length (join_str (classpathSeparator (platform e)) ?cp)"
  then have p: "(if dbg then map_sum id Some (getPort e) else Inr None) = Inr port"
    and g: "glob_sync e ''**/com.microsoft.java.test.runner-*.jar''
             (path_resolve e [dirname e, ''../../server'']) = launcher # launchers"
    and l: "MAX_CLASS_PATH_LENGTH e < length (join_str (classpathSeparator (platform e)) ?cp)"
    by simp_all
  obtain rest where "snd (runTest e jh ts sp dbg) =
           [OutputClear, OutputShow True, GetClassPath (uri first)]
           @ snd (parseParams e jh (getClassPath e (uri first)) (map test (first # others))
                    (path_join e sp (now e)) port dbg)
           @ rest"
    using runTest_trace_parseParams [OF t p] by blast
  then show "ArchiveAppend (constructManifestFile (fileUrl e) (eol e) ?cp) ''META-INF/MANIFEST.MF''
          \<in> set (snd (runTest e jh ts sp dbg))"
    using parseParams_found_long [OF g l, where jh = jh and suites = "map test (first # others)"
        and st = "path_join e sp (now e)" and dbg = dbg and port = port]
    by simp
qed

lemma wide_short:
  "glob_sync (env_linux\<lparr>MAX_CLASS_PATH_LENGTH := 200\<rparr>) ''**/com.microsoft.java.test.runner-*.jar''
      (path_resolve (env_linux\<lparr>MAX_CLASS_PATH_LENGTH := 200\<rparr>)
         [dirname (env_linux\<lparr>MAX_CLASS_PATH_LENGTH := 200\<rparr>), ''../../server''])
     = ''runner-0.1.jar'' # []
   \<and> length (join_str (classpathSeparator (platform (env_linux\<lparr>MAX_CLASS_PATH_LENGTH := 200\<rparr>)))
         (path_resolve (env_linux\<lparr>MAX_CLASS_PATH_LENGTH := 200\<rparr>)
            [path_resolve (env_linux\<lparr>MAX_CLASS_PATH_LENGTH := 200\<rparr>)
               [dirname (env_linux\<lparr>MAX_CLASS_PATH_LENGTH := 200\<rparr>), ''../../server''],
             ''runner-0.1.jar'']
          # getClassPath (env_linux\<lparr>MAX_CLASS_PATH_LENGTH := 200\<rparr>) (uri suiteA)))
       \<le> MAX_CLASS_PATH_LENGTH (env_linux\<lparr>MAX_CLASS_PATH_LENGTH := 200\<rparr>)"
  by code_simp

lemma linux_long:
  "glob_sync env_linux ''**/com.microsoft.java.test.runner-*.jar''
      (path_resolve env_linux [dirname env_linux, ''../../server'']) = ''runner-0.1.jar'' # []
   \<and> MAX_CLASS_PATH_LENGTH env_linux
       < length (join_str (classpathSeparator (platform env_linux))
           (path_resolve env_linux
              [path_resolve env_linux [dirname env_linux, ''../../server''], ''runner-0.1.jar'']
            # getClassPath env_linux (uri suiteA)))"
  by code_simp

lemma linux_params:
  "fst (parseParams env_linux ''/jdk'' (getClassPath env_linux (uri suiteA))
          (map test (suiteA # [suiteB])) (path_join env_linux ''/store'' (now env_linux)) None False) =
     Resolved (Some [dquote @ ''/jdk/bin/java'' @ dquote, ''-cp'',
                     dquote @ ''/store/1/path.jar'' @ dquote,
                     ''com.microsoft.java.test.runner.JUnitLauncher'', ''pkg.T#a'', ''pkg.U#b''])"
  by code_simp

theorem classpath_from_first_suite_witness:
  "classPathQueries (snd (runTest env_linux ''/jdk'' (Many [suiteA, suiteB]) ''/store'' False))
     = [''file:///a/T.java'']
   \<and> runTest (env_linux\<lparr>getClassPath := \<lambda>u. [''/a/bin'', ''/a/lib/x.jar'']\<rparr>) ''/jdk''
         (Many [suiteA, suiteB]) ''/store'' False =
       runTest env_linux ''/jdk'' (Many [suiteA, suiteB]) ''/store'' False
   \<and> fst (runTest env_linux ''/jdk'' (Many [suiteA, suiteB\<lparr>uri := ''file:///c/V.java''\<rparr>]) ''/store'' False) =
       fst (runTest env_linux ''/jdk'' (Many [suiteA, suiteB]) ''/store'' False)
   \<and> Exec (join_str '' ''
             [dquote @ ''/jdk/bin/java'' @ dquote, ''-cp'',
              dquote @ ''/ext/out/src/../../server/runner-0.1.jar:/a/bin:/a/lib/x.jar'' @ dquote,
              ''com.microsoft.java.test.runner.JUnitLauncher'', ''pkg.T#a'', ''pkg.U#b''])
       \<in> set (snd (runTest (env_linux\<lparr>MAX_CLASS_PATH_LENGTH := 200\<rparr>) ''/jdk''
                      (Many [suiteA, suiteB]) ''/store'' False))
   \<and> ArchiveAppend
         (''Class-Path: '' @ [CHR 0x0A] @ '' file:///ext/out/src/../../server/runner-0.1.jar ''
          @ [CHR 0x0A] @ '' file:///a/bin/ '' @ [CHR 0x0A] @ '' file:///a/lib/x.jar'' @ [CHR 0x0A])
         ''META-INF/MANIFEST.MF''
       \<in> set (snd (runTest env_linux ''/jdk'' (Many [suiteA, suiteB]) ''/store'' False))
   \<and> Exec (join_str '' ''
             [dquote @ ''/jdk/bin/java'' @ dquote, ''-cp'', dquote @ ''/store/1/path.jar'' @ dquote,
              ''com.microsoft.java.test.runner.JUnitLauncher'', ''pkg.T#a'', ''pkg.U#b''])
       \<in> set (snd (runTest env_linux ''/jdk'' (Many [suiteA, suiteB]) ''/store'' False))"
proof -
  have t: "testListOf (Many [suiteA, suiteB]) = suiteA # [suiteB]" by simp
  have p: "(if False then map_sum id Some (getPort e) else Inr None) = Inr None" for e :: env
    by simp
  note lin = classpath_from_first_suite [OF t, where e = env_linux and jh = "''/jdk''"
      and sp = "''/store''" and dbg = False and port = None
      and g = "\<lambda>u. [''/a/bin'', ''/a/lib/x.jar'']"
      and others' = "[suiteB\<lparr>uri := ''file:///c/V.java''\<rparr>]"
      and launcher = "''runner-0.1.jar''" and launchers = "[]"
      and params = "[dquote @ ''/jdk/bin/java'' @ dquote, ''-cp'',
                     dquote @ ''/store/1/path.jar'' @ dquote,
                     ''com.microsoft.java.test.runner.JUnitLauncher'', ''pkg.T#a'', ''pkg.U#b'']"]
  note wide = classpath_from_first_suite [OF t, where e = "env_linux\<lparr>MAX_CLASS_PATH_LENGTH := 200\<rparr>"
      and jh = "''/jdk''" and sp = "''/store''" and dbg = False and port = None
      and launcher = "''runner-0.1.jar''" and launchers = "[]"]
  have c1: "classPathQueries (snd (runTest env_linux ''/jdk'' (Many [suiteA, suiteB]) ''/store'' False))
     = [''file:///a/T.java'']"
    using lin by (simp add: suiteA_def)
  have g: "(\<lambda>u. [''/a/bin'', ''/a/lib/x.jar'']) (uri suiteA) = getClassPath env_linux (uri suiteA)"
    by (simp add: suiteA_def env_linux_def)
  have c2: "runTest (env_linux\<lparr>getClassPath := \<lambda>u. [''/a/bin'', ''/a/lib/x.jar'']\<rparr>) ''/jdk''
         (Many [suiteA, suiteB]) ''/store'' False =
       runTest env_linux ''/jdk'' (Many [suiteA, suiteB]) ''/store'' False"
    using lin g by blast
  have m: "map test [suiteB\<lparr>uri := ''file:///c/V.java''\<rparr>] = map test [suiteB]" by simp
  have c3: "fst (runTest env_linux ''/jdk'' (Many [suiteA, suiteB\<lparr>uri := ''file:///c/V.java''\<rparr>]) ''/store'' False) =
       fst (runTest env_linux ''/jdk'' (Many [suiteA, suiteB]) ''/store'' False)"
    using lin m by blast
  have "Exec (join_str '' ''
               ([dquote @ path_resolve (env_linux\<lparr>MAX_CLASS_PATH_LENGTH := 200\<rparr>) [''/jdk'' @ ''/bin/java''] @ dquote, ''-cp'',
                 dquote @ join_str (classpathSeparator (platform (env_linux\<lparr>MAX_CLASS_PATH_LENGTH := 200\<rparr>)))
                            (path_resolve (env_linux\<lparr>MAX_CLASS_PATH_LENGTH := 200\<rparr>)
                               [path_resolve (env_linux\<lparr>MAX_CLASS_PATH_LENGTH := 200\<rparr>)
                                  [dirname (env_linux\<lparr>MAX_CLASS_PATH_LENGTH := 200\<rparr>), ''../../server''],
                                ''runner-0.1.jar'']
                             # getClassPath (env_linux\<lparr>MAX_CLASS_PATH_LENGTH := 200\<rparr>) (uri suiteA))
                        @ dquote]
                @ (if False then
                     [''-Xdebug'',
                      ''-Xrunjdwp:transport=dt_socket,server=y,suspend=y,address=''
                        @ (case None of None \<Rightarrow> ''undefined'' | Some n \<Rightarrow> digits n)]
                   else [])
                @ [''com.microsoft.java.test.runner.JUnitLauncher''] @ map test (suiteA # [suiteB])))
          \<in> set (snd (runTest (env_linux\<lparr>MAX_CLASS_PATH_LENGTH := 200\<rparr>) ''/jdk''
                      (Many [suiteA, suiteB]) ''/store'' False))"
    using wide p wide_short by blast
  then have c4: "Exec (join_str '' ''
             [dquote @ ''/jdk/bin/java'' @ dquote, ''-cp'',
              dquote @ ''/ext/out/src/../../server/runner-0.1.jar:/a/bin:/a/lib/x.jar'' @ dquote,
              ''com.microsoft.java.test.runner.JUnitLauncher'', ''pkg.T#a'', ''pkg.U#b''])
       \<in> set (snd (runTest (env_linux\<lparr>MAX_CLASS_PATH_LENGTH := 200\<rparr>) ''/jdk''
                      (Many [suiteA, suiteB]) ''/store'' False))"
    by (simp add: env_linux_def suiteA_def suiteB_def classpathSeparator_def)
  have "ArchiveAppend
          (constructManifestFile (fileUrl env_linux) (eol env_linux)
             (path_resolve env_linux [path_resolve env_linux [dirname env_linux, ''../../server''], ''runner-0.1.jar'']
              # getClassPath env_linux (uri suiteA)))
          ''META-INF/MANIFEST.MF''
          \<in> set (snd (runTest env_linux ''/jdk'' (Many [suiteA, suiteB]) ''/store'' False))"
    using lin p linux_long by blast
  moreover have "constructManifestFile (fileUrl env_linux) (eol env_linux)
             (path_resolve env_linux [path_resolve env_linux [dirname env_linux, ''../../server''], ''runner-0.1.jar'']
              # getClassPath env_linux (uri suiteA)) =
         ''Class-Path: '' @ [CHR 0x0A] @ '' file:///ext/out/src/../../server/runner-0.1.jar ''
          @ [CHR 0x0A] @ '' file:///a/bin/ '' @ [CHR 0x0A] @ '' file:///a/lib/x.jar'' @ [CHR 0x0A]"
    by code_simp
  ultimately have c5: "ArchiveAppend
         (''Class-Path: '' @ [CHR 0x0A] @ '' file:///ext/out/src/../../server/runner-0.1.jar ''
          @ [CHR 0x0A] @ '' file:///a/bin/ '' @ [CHR 0x0A] @ '' file:///a/lib/x.jar'' @ [CHR 0x0A])
         ''META-INF/MANIFEST.MF''
       \<in> set (snd (runTest env_linux ''/jdk'' (Many [suiteA, suiteB]) ''/store'' False))"
    by (simp only:)
  have c6: "Exec (join_str '' ''
             [dquote @ ''/jdk/bin/java'' @ dquote, ''-cp'', dquote @ ''/store/1/path.jar'' @ dquote,
              ''com.microsoft.java.test.runner.JUnitLauncher'', ''pkg.T#a'', ''pkg.U#b''])
       \<in> set (snd (runTest env_linux ''/jdk'' (Many [suiteA, suiteB]) ''/store'' False))"
    using lin p linux_params by blast
  from c1 c2 c3 c4 c5 c6 show ?thesis by blast
qed

subsection \<open>Errors before the process is spawned\<close>

lemma runSingleton_rejected:
  "runTest e jh ts sp dbg = (Rejected ex, tr) \<Longrightarrow>
   runSingleton e False jh ts sp dbg = ((Rejected ex, SetRunning True # tr @ [SetRunning False]), False)"
  by (simp add: runSingleton_def)

lemma command_rejected:
  "runTest e jh ts sp dbg = (Rejected ex, tr) \<Longrightarrow>
   command \<lparr>req_debug = dbg, req_env = e, req_javaHome = jh, req_tests = ts, req_storagePath = sp\<rparr> False =
     ((Resolved Undefined,
       SetRunning True # tr @ [SetRunning False,
         LogUsage (if dbg then ''Debug Test'' else ''Run Test'') ''fail'' (Some (toString ex))]),
      False)"
  by (cases dbg)
     (simp_all add: command_def debugTestCommand_def runTestCommand_def runSingleton_def
        withScopeAsync_def)

text \<open>
  C7. An error thrown before the process is spawned, by the search for a free port in
  debug mode or by \<^verbatim>\<open>parseParams\<close>, is logged, no process is spawned, and the error
  leaves \<^verbatim>\<open>runTest\<close> and \<^verbatim>\<open>runSingleton\<close>, which resets \<^verbatim>\<open>running\<close>. It stops in
  \<^verbatim>\<open>withScopeAsync\<close>, whose \<^verbatim>\<open>catch\<close> block records it in the usage log and does not
  throw it again: the promise of the command resolves, to \<^verbatim>\<open>undefined\<close>.
\<close>

theorem setup_error_swallowed:
  assumes t: "testListOf ts = first # others"
    and f: "(dbg \<and> getPort e = Inl ex) \<or>
            ((if dbg then map_sum id Some (getPort e) else Inr None) = Inr port \<and>
             fst (parseParams e jh (getClassPath e (uri first)) (map test (first # others))
                    (path_join e sp (now e)) port dbg) = Rejected ex)"
  shows "\<exists>tr. runTest e jh ts sp dbg = (Rejected ex, tr)
           \<and> (\<exists>m. LogError m \<in> set tr)
           \<and> (\<forall>c. Exec c \<notin> set tr)
           \<and> runSingleton e False jh ts sp dbg =
               ((Rejected ex, SetRunning True # tr @ [SetRunning False]), False)
           \<and> command \<lparr>req_debug = dbg, req_env = e, req_javaHome = jh, req_tests = ts,
                       req_storagePath = sp\<rparr> False =
               ((Resolved Undefined,
                 SetRunning True # tr @ [SetRunning False,
                   LogUsage (if dbg then ''Debug Test'' else ''Run Test'') ''fail''
                     (Some (toString ex))]),
                False)"
proof -
  have "\<exists>tr. runTest e jh ts sp dbg = (Rejected ex, tr)
           \<and> (\<exists>m. LogError m \<in> set tr) \<and> (\<forall>c. Exec c \<notin> set tr)"
    using f
  proof
    assume "dbg \<and> getPort e = Inl ex"
    then have "dbg" "getPort e = Inl ex" by simp_all
    from runTest_port_failure [OF t this, of jh sp] show ?thesis by auto
  next
    let ?pp = "parseParams e jh (getClassPath e (uri first)) (map test (first # others))
                    (path_join e sp (now e)) port dbg"
    assume a: "(if dbg then map_sum id Some (getPort e) else Inr None) = Inr port \<and>
             fst ?pp = Rejected ex"
    then have pp: "?pp = (Rejected ex, snd ?pp)" by (metis prod.collapse)
    have r: "runTest e jh ts sp dbg =
       (Rejected ex,
        [OutputClear, OutputShow True, GetClassPath (uri first)] @ snd ?pp
        @ [LogError (''Exception occers while parsing params. Details: '' @ toString ex)]
        @ rimrafStorage e (path_join e sp (now e)))"
      using a runTest_params_rejected [OF t _ pp] by simp
    have "\<forall>x \<in> set (snd ?pp). x \<noteq> Exec c" for c
      using parseParams_calls archiveCall_not_Exec by blast
    moreover have "\<forall>x \<in> set (rimrafStorage e (path_join e sp (now e))). x \<noteq> Exec c" for c
      using processCall_not_Exec_rimraf by blast
    ultimately show ?thesis using r by auto
  qed
  then obtain tr where tr: "runTest e jh ts sp dbg = (Rejected ex, tr)"
      "\<exists>m. LogError m \<in> set tr" "\<forall>c. Exec c \<notin> set tr"
    by blast
  show ?thesis
    using tr runSingleton_rejected [OF tr(1)] command_rejected [OF tr(1)] by blast
qed

lemma params_error_example:
  "(if False then map_sum id Some (getPort (env_linux\<lparr>mkdirp := \<lambda>d. Some eacces\<rparr>)) else Inr None) = Inr None
   \<and> fst (parseParams (env_linux\<lparr>mkdirp := \<lambda>d. Some eacces\<rparr>) ''/jdk''
          (getClassPath (env_linux\<lparr>mkdirp := \<lambda>d. Some eacces\<rparr>) (uri suiteA))
          (map test (suiteA # []))
          (path_join (env_linux\<lparr>mkdirp := \<lambda>d. Some eacces\<rparr>) ''/store'' (now (env_linux\<lparr>mkdirp := \<lambda>d. Some eacces\<rparr>))) None False)
       = Rejected eacces"
  by code_simp

theorem setup_error_swallowed_witness:
  "(fst (fst (command \<lparr>req_debug = True, req_env = env_linux\<lparr>getPort := Inl noPort\<rparr>,
                      req_javaHome = ''/jdk'', req_tests = Single suiteA,
                      req_storagePath = ''/store''\<rparr> False)) = Resolved Undefined
    \<and> fst (fst (runSingleton (env_linux\<lparr>getPort := Inl noPort\<rparr>) False ''/jdk'' (Single suiteA)
                  ''/store'' True)) = Rejected noPort)
   \<and> (fst (fst (command \<lparr>req_debug = False, req_env = env_linux\<lparr>mkdirp := \<lambda>d. Some eacces\<rparr>,
                      req_javaHome = ''/jdk'', req_tests = Single suiteA,
                      req_storagePath = ''/store''\<rparr> False)) = Resolved Undefined
    \<and> fst (fst (runSingleton (env_linux\<lparr>mkdirp := \<lambda>d. Some eacces\<rparr>) False ''/jdk'' (Single suiteA)
                  ''/store'' False)) = Rejected eacces)"
proof -
  have t: "testListOf (Single suiteA) = suiteA # []" by simp
  have p: "(True \<and> getPort (env_linux\<lparr>getPort := Inl noPort\<rparr>) = Inl noPort) \<or>
      ((if True then map_sum id Some (getPort (env_linux\<lparr>getPort := Inl noPort\<rparr>)) else Inr None) = Inr None \<and>
       fst (parseParams (env_linux\<lparr>getPort := Inl noPort\<rparr>) ''/jdk''
              (getClassPath (env_linux\<lparr>getPort := Inl noPort\<rparr>) (uri suiteA))
              (map test (suiteA # []))
              (path_join (env_linux\<lparr>getPort := Inl noPort\<rparr>) ''/store'' (now (env_linux\<lparr>getPort := Inl noPort\<rparr>))) None True) = Rejected noPort)"
    by simp
  have q: "(False \<and> getPort (env_linux\<lparr>mkdirp := \<lambda>d. Some eacces\<rparr>) = Inl eacces) \<or>
      ((if False then map_sum id Some (getPort (env_linux\<lparr>mkdirp := \<lambda>d. Some eacces\<rparr>)) else Inr None) = Inr None \<and>
       fst (parseParams (env_linux\<lparr>mkdirp := \<lambda>d. Some eacces\<rparr>) ''/jdk''
              (getClassPath (env_linux\<lparr>mkdirp := \<lambda>d. Some eacces\<rparr>) (uri suiteA))
              (map test (suiteA # []))
              (path_join (env_linux\<lparr>mkdirp := \<lambda>d. Some eacces\<rparr>) ''/store'' (now (env_linux\<lparr>mkdirp := \<lambda>d. Some eacces\<rparr>))) None False) = Rejected eacces)"
    using params_error_example by simp
  from setup_error_swallowed [OF t p] setup_error_swallowed [OF t q]
  show ?thesis by auto
qed

text \<open>
  The error does not reach the caller of the command: with no free port, \<^verbatim>\<open>runTest\<close> is
  rejected and the debug command resolves.
\<close>

theorem port_error_not_propagated:
  "fst (runTest (env_linux\<lparr>getPort := Inl noPort\<rparr>) ''/jdk'' (Single suiteA) ''/store'' True)
     = Rejected noPort
   \<and> fst (fst (debugTestCommand (env_linux\<lparr>getPort := Inl noPort\<rparr>) False ''/jdk''
                  (Single suiteA) ''/store'')) = Resolved Undefined"
  by (simp add: debugTestCommand_def runSingleton_def withScopeAsync_def runTest_def Let_def)

subsection \<open>The guard is released\<close>

text \<open>
  C2. When \<^verbatim>\<open>runSingleton\<close> has set \<^verbatim>\<open>running\<close> and \<^verbatim>\<open>runTest\<close> settles, in whatever
  way, \<^verbatim>\<open>running\<close> is false afterwards and was assigned \<^verbatim>\<open>false\<close> exactly once, as the
  last call, after all calls of \<^verbatim>\<open>runTest\<close>; a rejection is passed on.
\<close>

theorem running_reset_once:
  assumes "fst (runTest e jh ts sp dbg) \<noteq> Pending"
  shows "snd (runSingleton e False jh ts sp dbg) = False
     \<and> snd (fst (runSingleton e False jh ts sp dbg)) =
         SetRunning True # snd (runTest e jh ts sp dbg) @ [SetRunning False]
     \<and> count_list (snd (fst (runSingleton e False jh ts sp dbg))) (SetRunning False) = 1
     \<and> fst (fst (runSingleton e False jh ts sp dbg)) =
         (case fst (runTest e jh ts sp dbg) of
            Rejected ex \<Rightarrow> Rejected ex | Resolved v \<Rightarrow> Resolved Undefined | Pending \<Rightarrow> Pending)"
proof -
  obtain r tr where rt: "runTest e jh ts sp dbg = (r, tr)" by (cases "runTest e jh ts sp dbg")
  have "SetRunning False \<notin> set tr"
    using runTest_no_SetRunning [of False e jh ts sp dbg] rt by simp
  then have c: "count_list tr (SetRunning False) = 0" by simp
  show ?thesis
    using assms rt c by (cases r) (simp_all add: runSingleton_def)
qed

text \<open>The ways a run can end, each at an environment that produces it.\<close>

lemma outcome_normal:
  "fst (runTest env_linux ''/jdk'' (Single suiteA) ''/store'' False) = Resolved Undefined"
  by code_simp

lemma outcome_null:
  "fst (runTest (env_linux\<lparr>glob_sync := \<lambda>p c. []\<rparr>) ''/jdk'' (Single suiteA) ''/store'' False) = Resolved Null"
  by code_simp

lemma outcome_port_error:
  "fst (runTest (env_linux\<lparr>getPort := Inl noPort\<rparr>) ''/jdk'' (Single suiteA) ''/store'' True) = Rejected noPort"
  by code_simp

lemma outcome_params_error:
  "fst (runTest (env_linux\<lparr>mkdirp := \<lambda>d. Some eacces\<rparr>) ''/jdk'' (Single suiteA) ''/store'' False) = Rejected eacces"
  by code_simp

lemma outcome_spawn_error:
  "fst (runTest (env_linux\<lparr>proc_events := [PError enoent]\<rparr>) ''/jdk'' (Single suiteA) ''/store'' False) = Rejected enoent"
  by code_simp

lemma outcome_stderr:
  "fst (runTest (env_linux\<lparr>proc_events := [StderrData ''boom'', PExit (Some 1) None, PClose]\<rparr>)
          ''/jdk'' (Single suiteA) ''/store'' False) = Rejected (StringVal ''boom'')"
  by code_simp

theorem running_reset_once_witness:
  "(snd (runSingleton env_linux False ''/jdk'' (Single suiteA) ''/store'' False) = False
    \<and> count_list (snd (fst (runSingleton env_linux False ''/jdk'' (Single suiteA) ''/store'' False)))
         (SetRunning False) = 1)
   \<and> (snd (runSingleton (env_linux\<lparr>proc_events := [StderrData ''boom'', PExit (Some 1) None, PClose]\<rparr>)
              False ''/jdk'' (Single suiteA) ''/store'' False) = False
    \<and> count_list (snd (fst (runSingleton
                (env_linux\<lparr>proc_events := [StderrData ''boom'', PExit (Some 1) None, PClose]\<rparr>)
                False ''/jdk'' (Single suiteA) ''/store'' False)))
         (SetRunning False) = 1
    \<and> fst (fst (runSingleton
                (env_linux\<lparr>proc_events := [StderrData ''boom'', PExit (Some 1) None, PClose]\<rparr>)
                False ''/jdk'' (Single suiteA) ''/store'' False)) = Rejected (StringVal ''boom''))"
proof -
  have h1: "fst (runTest env_linux ''/jdk'' (Single suiteA) ''/store'' False) \<noteq> Pending"
    by (simp add: outcome_normal)
  have h2: "fst (runTest (env_linux\<lparr>proc_events := [StderrData ''boom'', PExit (Some 1) None, PClose]\<rparr>)
                   ''/jdk'' (Single suiteA) ''/store'' False) \<noteq> Pending"
    by (simp add: outcome_stderr)
  note a = running_reset_once [OF h1] and b = running_reset_once [OF h2]
  have "fst (fst (runSingleton
                (env_linux\<lparr>proc_events := [StderrData ''boom'', PExit (Some 1) None, PClose]\<rparr>)
                False ''/jdk'' (Single suiteA) ''/store'' False)) = Rejected (StringVal ''boom'')"
    using b by (simp only: outcome_stderr promise.case)
  then show ?thesis using a b by blast
qed

subsection \<open>One run at a time\<close>

lemma command_while_running:
  "command r True =
     ((Resolved Undefined,
       [ShowInformationMessage ''A test session is currently running. Please wait until it finishes.'',
        LogInfo ''Skip this run cause we only support running one session at the same time'',
        LogUsage (if req_debug r then ''Debug Test'' else ''Run Test'') ''success'' None]),
      True)"
  by (simp add: command_def debugTestCommand_def runTestCommand_def runSingleton_def
      withScopeAsync_def)

lemma invoke_while_running:
  "flag w \<Longrightarrow> invoke w r =
     w\<lparr>made := made w @
       [ShowInformationMessage ''A test session is currently running. Please wait until it finishes.'',
        LogInfo ''Skip this run cause we only support running one session at the same time'',
        LogUsage (if req_debug r then ''Debug Test'' else ''Run Test'') ''success'' None]\<rparr>"
  by (simp add: invoke_def command_while_running)

lemma guarded_invoke: "guarded w \<Longrightarrow> guarded (invoke w r)"
proof (cases "flag w")
  case True
  assume "guarded w"
  then show ?thesis using True by (simp add: invoke_while_running guarded_def)
next
  case False
  assume "guarded w"
  then show ?thesis using False
    by (cases "runTest (req_env r) (req_javaHome r) (req_tests r) (req_storagePath r) (req_debug r)")
       (simp add: invoke_def guarded_def)
qed

lemma guarded_advance: "guarded w \<Longrightarrow> guarded (advance w i)"
proof (cases "i < length (inflight w)")
  case False
  assume "guarded w"
  then show ?thesis using False by (simp add: advance_def)
next
  case True
  assume g: "guarded w"
  then have one: "length (inflight w) = 1" "i = 0" "flag w"
    using True by (auto simp: guarded_def)
  show ?thesis
  proof (cases "script (inflight w ! i)")
    case (Cons c cs)
    then show ?thesis using g True by (simp add: advance_def guarded_def Let_def)
  next
    case Nil
    then show ?thesis using g True one
      by (cases "outcome (inflight w ! i)") (simp_all add: advance_def guarded_def Let_def)
  qed
qed

lemma guarded_step: "guarded w \<Longrightarrow> guarded (step w ev)"
  by (cases ev) (simp_all add: guarded_invoke guarded_advance)

lemma guarded_foldl: "guarded w \<Longrightarrow> guarded (foldl step w evs)"
  by (induction evs arbitrary: w) (simp_all add: guarded_step)

lemma guarded_run_world: "guarded (run_world evs)"
  unfolding run_world_def by (rule guarded_foldl) (simp add: guarded_def idle_def)

text \<open>
  C1. After any sequence of command invocations and steps of the invocations under way,
  at most one invocation is between lines 213 and 217, and \<^verbatim>\<open>running\<close> is true exactly
  when there is one. A command invoked while \<^verbatim>\<open>running\<close> is true shows the message to the
  user, logs it and returns: it makes no other call (no process is spawned), it starts no
  run, and \<^verbatim>\<open>running\<close> keeps its value.
\<close>

theorem one_run_at_a_time:
  "length (inflight (run_world evs)) \<le> 1
   \<and> (flag (run_world evs) \<longleftrightarrow> inflight (run_world evs) \<noteq> [])
   \<and> (flag (run_world evs) \<longrightarrow>
        step (run_world evs) (Invoke r) =
          (run_world evs)\<lparr>made := made (run_world evs) @
            [ShowInformationMessage
               ''A test session is currently running. Please wait until it finishes.'',
             LogInfo ''Skip this run cause we only support running one session at the same time'',
             LogUsage (if req_debug r then ''Debug Test'' else ''Run Test'') ''success'' None]\<rparr>)"
  using guarded_run_world [of evs] invoke_while_running [of "run_world evs" r]
  by (simp add: guarded_def)

lemma run_world_first:
  "flag (run_world [Invoke r]) \<and> made (run_world [Invoke r]) = [SetRunning True]"
  by (cases "runTest (req_env r) (req_javaHome r) (req_tests r) (req_storagePath r) (req_debug r)")
     (simp add: run_world_def idle_def invoke_def)

theorem one_run_at_a_time_witness:
  "flag (run_world [Invoke requestA])
   \<and> length (inflight (run_world [Invoke requestA])) \<le> 1
   \<and> step (run_world [Invoke requestA]) (Invoke requestB) =
       (run_world [Invoke requestA])\<lparr>made :=
          [SetRunning True,
           ShowInformationMessage
             ''A test session is currently running. Please wait until it finishes.'',
           LogInfo ''Skip this run cause we only support running one session at the same time'',
           LogUsage ''Debug Test'' ''success'' None]\<rparr>"
  using one_run_at_a_time [of "[Invoke requestA]" requestB] run_world_first [of requestA]
  by (simp add: requestB_def)

lemma foldl_replicate_Suc:
  "foldl f a (replicate (Suc n) x) = f (foldl f a (replicate n x)) x"
  by (induction n arbitrary: a) simp_all

lemma advance_script:
  "inflight w = [iv] \<Longrightarrow> script iv = cs \<Longrightarrow>
   foldl step w (replicate (length cs) (Advance 0)) =
     w\<lparr>inflight := [iv\<lparr>script := []\<rparr>], made := made w @ cs\<rparr>"
proof (induction cs arbitrary: w iv)
  case Nil
  then show ?case by simp
next
  case (Cons c cs)
  let ?w = "w\<lparr>inflight := [iv\<lparr>script := cs\<rparr>], made := made w @ [c]\<rparr>"
  have "advance w 0 = ?w" using Cons.prems by (simp add: advance_def Let_def)
  moreover have "foldl step ?w (replicate (length cs) (Advance 0)) =
      ?w\<lparr>inflight := [(iv\<lparr>script := cs\<rparr>)\<lparr>script := []\<rparr>], made := made ?w @ cs\<rparr>"
    by (rule Cons.IH) simp_all
  ultimately show ?case by simp
qed

lemma run_to_completion:
  assumes "\<not> flag w" and "inflight w = []"
    and "fst (runTest (req_env r) (req_javaHome r) (req_tests r) (req_storagePath r) (req_debug r))
           \<noteq> Pending"
  shows "foldl step w
           (Invoke r # replicate
              (Suc (length (snd (runTest (req_env r) (req_javaHome r) (req_tests r)
                             (req_storagePath r) (req_debug r))))) (Advance 0)) =
         w\<lparr>flag := snd (command r False), inflight := [],
           made := made w @ snd (fst (command r False))\<rparr>"
proof -
  obtain p tr where rt: "runTest (req_env r) (req_javaHome r) (req_tests r) (req_storagePath r)
      (req_debug r) = (p, tr)"
    by (cases "runTest (req_env r) (req_javaHome r) (req_tests r) (req_storagePath r) (req_debug r)")
  let ?ty = "if req_debug r then ''Debug Test'' else ''Run Test''"
  let ?iv = "\<lparr>script = tr, outcome = p, eventType = ?ty\<rparr>"
  let ?w1 = "w\<lparr>flag := True, inflight := [?iv], made := made w @ [SetRunning True]\<rparr>"
  have w1: "invoke w r = ?w1" using assms(1,2) rt by (simp add: invoke_def)
  let ?w2 = "?w1\<lparr>inflight := [?iv\<lparr>script := []\<rparr>], made := made ?w1 @ tr\<rparr>"
  have w2: "foldl step ?w1 (replicate (length tr) (Advance 0)) = ?w2"
    by (rule advance_script) simp_all
  have p: "p \<noteq> Pending" using assms(3) rt by simp
  have "foldl step w (Invoke r # replicate (Suc (length tr)) (Advance 0)) =
      advance (foldl step ?w1 (replicate (length tr) (Advance 0))) 0"
    using w1 by (simp only: foldl_Cons step.simps foldl_replicate_Suc)
  also have "\<dots> = advance ?w2 0" using w2 by simp
  also have "\<dots> = w\<lparr>flag := snd (command r False), inflight := [],
           made := made w @ snd (fst (command r False))\<rparr>"
    using p rt
    by (cases p; cases "req_debug r")
       (simp_all add: advance_def command_def debugTestCommand_def runTestCommand_def
          runSingleton_def withScopeAsync_def)
  finally show ?thesis using rt by simp
qed

end
